theory Spec2Isabelle
  imports Main "HOL-Library.Word"
begin

unbundle bit_operations_syntax

section \<open>Machine types\<close>

type_synonym u8 = "8 word"
type_synonym u32 = "32 word"
type_synonym u64 = "64 word"
type_synonym GPUVAddr = u64
type_synonym VAddr = u64

section \<open>Failures\<close>

text \<open>
  Every \<^verbatim>\<open>ASSERT\<close>, \<^verbatim>\<open>ASSERT_MSG\<close> and \<^verbatim>\<open>UNIMPLEMENTED_MSG\<close> of
  \<^verbatim>\<open>maxwell_3d.cpp\<close> is a branch that ends the call. The constructors carry the names
  of the specification's error taxonomy; the comment gives the assertion each stands for.
  \<open>OutOfBounds\<close> stands for an access past the end of a fixed-size array, which C++ leaves
  undefined.
\<close>

datatype error =
    InvalidRegister          \<comment> \<open>\<^verbatim>\<open>ASSERT_MSG(method < Regs::NUM_REGS, ...)\<close>\<close>
  | MacroArgumentExpected    \<comment> \<open>\<^verbatim>\<open>ASSERT(method == executing_macro + 1)\<close>\<close>
  | MacroStartOnArgument     \<comment> \<open>\<^verbatim>\<open>ASSERT_MSG((method % 2) == 0, ...)\<close>\<close>
  | UnknownMacro             \<comment> \<open>\<^verbatim>\<open>ASSERT_MSG(uploaded_macros.find(method) != end, ...)\<close>\<close>
  | UnimplementedMacro       \<comment> \<open>\<^verbatim>\<open>ASSERT_MSG(itr != method_handlers.end(), ...)\<close>\<close>
  | ArityMismatch            \<comment> \<open>\<^verbatim>\<open>ASSERT(itr->second.arguments == parameters.size())\<close>\<close>
  | UnexpectedCodeAddress    \<comment> \<open>\<^verbatim>\<open>ASSERT_MSG(regs.code_address.CodeAddress() == 0, ...)\<close>\<close>
  | ConstBufferNotBound      \<comment> \<open>\<^verbatim>\<open>ASSERT(buffer_address != 0)\<close>\<close>
  | ConstBufferOverflow      \<comment> \<open>\<^verbatim>\<open>ASSERT(cb_pos + sizeof(u32) <= cb_size)\<close>\<close>
  | UnimplementedQueryMode   \<comment> \<open>\<^verbatim>\<open>UNIMPLEMENTED_MSG("Query mode %u not implemented", ...)\<close>\<close>
  | UnsupportedTextureFormat \<comment> \<open>the three assertions of \<^verbatim>\<open>GetTICEntry\<close>\<close>
  | TextureBufferNotBound    \<comment> \<open>\<^verbatim>\<open>ASSERT(tex_info_buffer.enabled && tex_info_buffer.address != 0)\<close>\<close>
  | OutOfBounds

text \<open>The specification files four of them under its \<open>ContractViolation\<close>.\<close>

fun is_contract_violation :: "error \<Rightarrow> bool" where
  "is_contract_violation InvalidRegister = True"
| "is_contract_violation MacroArgumentExpected = True"
| "is_contract_violation MacroStartOnArgument = True"
| "is_contract_violation ArityMismatch = True"
| "is_contract_violation _ = False"

text \<open>
  A state-changing member function either runs to its end (\<open>Ok\<close>, with the state it leaves)
  or stops at a failed assertion (\<open>Fail\<close>, with the assertion and the state at that point).
\<close>

datatype 's outcome = Ok 's | Fail error 's

section \<open>Guest memory\<close>

text \<open>
  Modelled from the spec: the guest memory collaborator (\<^verbatim>\<open>Memory::Read32\<close>,
  \<^verbatim>\<open>Memory::Write32\<close>, \<^verbatim>\<open>Memory::ReadBlock\<close>) is not part of the engine's source.
  Guest memory is a byte store indexed by 64-bit virtual addresses; 32-bit accesses are
  little-endian.
\<close>

type_synonym memory = "VAddr \<Rightarrow> u8"

definition Write32 :: "memory \<Rightarrow> VAddr \<Rightarrow> u32 \<Rightarrow> memory" where
  "Write32 m a v =
     m(a := ucast v,
       a + 1 := ucast (drop_bit 8 v),
       a + 2 := ucast (drop_bit 16 v),
       a + 3 := ucast (drop_bit 24 v))"

definition Read32 :: "memory \<Rightarrow> VAddr \<Rightarrow> u32" where
  "Read32 m a =
     ucast (m a) OR push_bit 8 (ucast (m (a + 1)))
       OR push_bit 16 (ucast (m (a + 2))) OR push_bit 24 (ucast (m (a + 3)))"

definition ReadBlock :: "memory \<Rightarrow> VAddr \<Rightarrow> nat \<Rightarrow> u8 list" where
  "ReadBlock m a n = map (\<lambda>i. m (a + of_nat i)) [0..<n]"

section \<open>Bit fields\<close>

text \<open>
  Modelled from the spec: \<^verbatim>\<open>common/bit_field.h\<close> is not part of the source. A bit field
  is given by its position and its width inside a 32-bit word, with pure accessors that
  extract and pack it (design note of section 9).
\<close>

type_synonym bitfield = "nat \<times> nat"

definition BitField_Value :: "bitfield \<Rightarrow> u32 \<Rightarrow> u32" where
  "BitField_Value f w = take_bit (snd f) (drop_bit (fst f) w)"

definition BitField_Assign :: "bitfield \<Rightarrow> u32 \<Rightarrow> u32 \<Rightarrow> u32" where
  "BitField_Assign f w v =
     (w AND NOT (push_bit (fst f) (mask (snd f)))) OR push_bit (fst f) (take_bit (snd f) v)"

section \<open>The register layout\<close>

text \<open>
  \<^verbatim>\<open>maxwell_3d.h\<close>, which declares \<^verbatim>\<open>Regs\<close>, is not part of the source. The named
  registers the engine uses are the constructors of \<open>field\<close>; where each sits in
  \<^verbatim>\<open>reg_array\<close> (the macro \<^verbatim>\<open>MAXWELL3D_REG_INDEX\<close>), the array bounds, the bit fields
  and the texture descriptor accessors are parameters, collected in \<open>env\<close> together with
  the memory manager's address translation.
\<close>

datatype field =
    code_address_high
  | code_address_low
  | const_buffer_cb_size
  | const_buffer_cb_address_high
  | const_buffer_cb_address_low
  | const_buffer_cb_pos
  | const_buffer_cb_data nat
  | cb_bind_raw_config nat
  | draw_vertex_end_gl
  | query_address_high
  | query_address_low
  | query_sequence
  | query_get
  | tex_info_buffers_address nat
  | tex_info_buffers_size nat
  | shader_config_start_id nat
  | ssbo_info_buffer_address
  | tic_address_high
  | tic_address_low
  | tsc_address_high
  | tsc_address_low
  | tex_cb_index

record env =
  NUM_REGS :: nat
  MaxShaderProgram :: nat
  MaxConstBuffers :: nat
  reg_index :: "field \<Rightarrow> nat"
  cb_bind_valid :: bitfield
  cb_bind_index :: bitfield
  query_get_mode :: bitfield
  QueryMode_Write :: u32
  handle_tic_id :: bitfield
  handle_tsc_id :: bitfield
  sizeof_TICEntry :: nat
  sizeof_TSCEntry :: nat
  tic_header_version :: "u8 list \<Rightarrow> u32"
  tic_texture_type :: "u8 list \<Rightarrow> u32"
  tic_r_type :: "u8 list \<Rightarrow> u32"
  tic_g_type :: "u8 list \<Rightarrow> u32"
  tic_b_type :: "u8 list \<Rightarrow> u32"
  tic_a_type :: "u8 list \<Rightarrow> u32"
  TICHeaderVersion_BlockLinear :: u32
  TextureType_Texture2D :: u32
  ssbo_info_BufferAddress :: "u32 \<Rightarrow> GPUVAddr"
  PhysicalToVirtualAddress :: "GPUVAddr \<Rightarrow> VAddr"

text \<open>First register id that is actually a macro call.\<close>

definition MacroRegistersStart :: u32 where
  "MacroRegistersStart = 0xE00"

text \<open>
  The five shader stages, numbered as \<^verbatim>\<open>WriteReg\<close> pairs them with \<^verbatim>\<open>cb_bind[0..4]\<close>
  (and as the comment of \<^verbatim>\<open>BindTextureInfoBuffer\<close> says: 4 for the fragment shader).
  A stage is kept as the 32-bit value of the enumeration, since \<^verbatim>\<open>SetShader\<close> casts a raw
  parameter to it.
\<close>

type_synonym ShaderStage = u32

definition Vertex :: ShaderStage where "Vertex = 0"
definition TesselationControl :: ShaderStage where "TesselationControl = 1"
definition TesselationEval :: ShaderStage where "TesselationEval = 2"
definition Geometry :: ShaderStage where "Geometry = 3"
definition Fragment :: ShaderStage where "Fragment = 4"

definition MaxShaderStage :: nat where
  "MaxShaderStage = 5"

text \<open>The named registers, as a list; array members within their bounds.\<close>

definition all_fields :: "env \<Rightarrow> field list" where
  "all_fields E =
     [code_address_high, code_address_low,
      const_buffer_cb_size, const_buffer_cb_address_high, const_buffer_cb_address_low,
      const_buffer_cb_pos, draw_vertex_end_gl,
      query_address_high, query_address_low, query_sequence, query_get,
      ssbo_info_buffer_address,
      tic_address_high, tic_address_low, tsc_address_high, tsc_address_low, tex_cb_index]
     @ map const_buffer_cb_data [0..<16]
     @ map cb_bind_raw_config [0..<MaxShaderStage]
     @ map tex_info_buffers_address [0..<MaxShaderStage]
     @ map tex_info_buffers_size [0..<MaxShaderStage]
     @ map shader_config_start_id [0..<MaxShaderProgram E]"

text \<open>
  What the C++ struct guarantees of any layout: distinct members do not overlap and lie
  inside the register array. The bit fields of the bind configuration lie inside their
  word and are disjoint; \<^verbatim>\<open>SetShader\<close>'s comment (a hardcoded \<^verbatim>\<open>0x11\<close>) puts \<open>valid\<close>
  at bit 0 and \<open>index\<close> at bit 4.
\<close>

definition wf_layout :: "env \<Rightarrow> bool" where
  "wf_layout E \<longleftrightarrow>
     distinct (map (reg_index E) (all_fields E)) \<and>
     list_all (\<lambda>f. reg_index E f < NUM_REGS E) (all_fields E) \<and>
     fst (cb_bind_valid E) = 0 \<and> 0 < snd (cb_bind_valid E) \<and> snd (cb_bind_valid E) \<le> 4 \<and>
     fst (cb_bind_index E) = 4 \<and> 0 < snd (cb_bind_index E) \<and> snd (cb_bind_index E) \<le> 28"

section \<open>Engine state\<close>

record ShaderProgramInfo =
  sp_program :: u32
  sp_stage :: ShaderStage
  sp_address :: GPUVAddr

record ConstBufferInfo =
  cbi_address :: GPUVAddr
  cbi_index :: u32
  cbi_size :: u32
  cbi_enabled :: bool

text \<open>
  What the engine calls outside itself and that returns nothing to it: the events sent to
  the debug context and the rasterizer's draw-batch entry point.
\<close>

datatype event =
    MaxwellCommandLoaded
  | MaxwellCommandProcessed
  | IncomingPrimitiveBatch
  | FinishedPrimitiveBatch
  | AccelerateDrawBatch bool

record engine =
  reg_array :: "nat \<Rightarrow> u32"
  shader_programs :: "nat \<Rightarrow> ShaderProgramInfo"
  shader_stages :: "nat \<Rightarrow> nat \<Rightarrow> ConstBufferInfo"
  uploaded_macros :: "u32 \<rightharpoonup> u32 list"
  executing_macro :: u32
  macro_params :: "u32 list"
  guest_memory :: memory
  debug_context :: bool
  trace :: "event list"

definition reg :: "env \<Rightarrow> engine \<Rightarrow> field \<Rightarrow> u32" where
  "reg E s f = reg_array s (reg_index E f)"

definition set_reg :: "env \<Rightarrow> field \<Rightarrow> u32 \<Rightarrow> engine \<Rightarrow> engine" where
  "set_reg E f v s = s\<lparr>reg_array := (reg_array s)(reg_index E f := v)\<rparr>"

text \<open>
  Modelled from the spec: the address accessors of \<^verbatim>\<open>Regs\<close> (\<^verbatim>\<open>CodeAddress\<close>,
  \<^verbatim>\<open>BufferAddress\<close>, \<^verbatim>\<open>QueryAddress\<close>, \<^verbatim>\<open>TICAddress\<close>, \<^verbatim>\<open>TSCAddress\<close>) are declared
  in the absent header. Each joins the high and the low half of a register pair, the
  inverse of the split the macro handlers store (\<^verbatim>\<open>address >> 32\<close>,
  \<^verbatim>\<open>address & 0xFFFFFFFF\<close>).
\<close>

definition join_address :: "u32 \<Rightarrow> u32 \<Rightarrow> GPUVAddr" where
  "join_address hi lo = push_bit 32 (ucast hi) OR ucast lo"

definition CodeAddress :: "env \<Rightarrow> engine \<Rightarrow> GPUVAddr" where
  "CodeAddress E s = join_address (reg E s code_address_high) (reg E s code_address_low)"

definition BufferAddress :: "env \<Rightarrow> engine \<Rightarrow> GPUVAddr" where
  "BufferAddress E s =
     join_address (reg E s const_buffer_cb_address_high) (reg E s const_buffer_cb_address_low)"

definition QueryAddress :: "env \<Rightarrow> engine \<Rightarrow> GPUVAddr" where
  "QueryAddress E s = join_address (reg E s query_address_high) (reg E s query_address_low)"

definition TICAddress :: "env \<Rightarrow> engine \<Rightarrow> GPUVAddr" where
  "TICAddress E s = join_address (reg E s tic_address_high) (reg E s tic_address_low)"

definition TSCAddress :: "env \<Rightarrow> engine \<Rightarrow> GPUVAddr" where
  "TSCAddress E s = join_address (reg E s tsc_address_high) (reg E s tsc_address_low)"

text \<open>
  Modelled from the spec: \<^verbatim>\<open>ssbo_info.BufferAddress()\<close> is declared in the absent header.
  Section 4.6 takes the address from one dedicated storage-buffer-info register; how the
  64-bit address is derived from that register is the parameter
  \<open>ssbo_info_BufferAddress\<close>.
\<close>

definition SSBOBufferAddress :: "env \<Rightarrow> engine \<Rightarrow> GPUVAddr" where
  "SSBOBufferAddress E s = ssbo_info_BufferAddress E (reg E s ssbo_info_buffer_address)"

definition OnEvent :: "event \<Rightarrow> engine \<Rightarrow> engine" where
  "OnEvent e s = (if debug_context s then s\<lparr>trace := trace s @ [e]\<rparr> else s)"

section \<open>Macro upload\<close>

definition SubmitMacroCode :: "engine \<Rightarrow> u32 \<Rightarrow> u32 list \<Rightarrow> engine" where
  "SubmitMacroCode s entry code =
     s\<lparr>uploaded_macros := (uploaded_macros s)(entry * 2 + MacroRegistersStart \<mapsto> code)\<rparr>"

section \<open>Constant buffer manager\<close>

definition ProcessCBBind :: "env \<Rightarrow> engine \<Rightarrow> ShaderStage \<Rightarrow> engine outcome" where
  "ProcessCBBind E s stage =
     (if \<not> unat stage < MaxShaderStage then Fail OutOfBounds s
      else
        let bind_data = reg E s (cb_bind_raw_config (unat stage));
            index = BitField_Value (cb_bind_index E) bind_data
        in if \<not> unat index < MaxConstBuffers E then Fail OutOfBounds s
           else
             let buffer = \<lparr>cbi_address = BufferAddress E s,
                           cbi_index = index,
                           cbi_size = reg E s const_buffer_cb_size,
                           cbi_enabled = (BitField_Value (cb_bind_valid E) bind_data \<noteq> 0)\<rparr>
             in Ok (s\<lparr>shader_stages :=
                       (shader_stages s)(unat stage :=
                          (shader_stages s (unat stage))(unat index := buffer))\<rparr>))"

definition ProcessCBData :: "env \<Rightarrow> engine \<Rightarrow> u32 \<Rightarrow> engine outcome" where
  "ProcessCBData E s val =
     (let buffer_address = BufferAddress E s in
      if buffer_address = 0 then Fail ConstBufferNotBound s
      else if \<not> unat (reg E s const_buffer_cb_pos) + 4 \<le> unat (reg E s const_buffer_cb_size)
      then Fail ConstBufferOverflow s
      else
        let address = PhysicalToVirtualAddress E
                        (buffer_address + ucast (reg E s const_buffer_cb_pos));
            s1 = s\<lparr>guest_memory := Write32 (guest_memory s) address val\<rparr>
        in Ok (set_reg E const_buffer_cb_pos (reg E s1 const_buffer_cb_pos + 4) s1))"

section \<open>Query processor and draw trigger\<close>

definition ProcessQueryGet :: "env \<Rightarrow> engine \<Rightarrow> engine outcome" where
  "ProcessQueryGet E s =
     (let sequence_address = QueryAddress E s;
          address = PhysicalToVirtualAddress E sequence_address
      in if BitField_Value (query_get_mode E) (reg E s query_get) = QueryMode_Write E
         then
           let sequence = reg E s query_sequence
           in Ok (s\<lparr>guest_memory := Write32 (guest_memory s) address sequence\<rparr>)
         else Fail UnimplementedQueryMode s)"

definition DrawArrays :: "engine \<Rightarrow> engine" where
  "DrawArrays s =
     (let s1 = OnEvent IncomingPrimitiveBatch s;
          s2 = OnEvent FinishedPrimitiveBatch s1
      in s2\<lparr>trace := trace s2 @ [AccelerateDrawBatch False]\<rparr>)"

section \<open>Macro handlers\<close>

definition BindTextureInfoBuffer :: "env \<Rightarrow> engine \<Rightarrow> u32 list \<Rightarrow> engine outcome" where
  "BindTextureInfoBuffer E s parameters =
     (case parameters of
        [stage] \<Rightarrow>
          if \<not> unat stage < MaxShaderStage then Fail OutOfBounds s
          else
            let address = push_bit 8
                  (ucast (reg E s (tex_info_buffers_address (unat stage))) :: GPUVAddr);
                sz = reg E s (tex_info_buffers_size (unat stage));
                s1 = set_reg E const_buffer_cb_size sz s;
                s2 = set_reg E const_buffer_cb_address_high (ucast (drop_bit 32 address)) s1
            in Ok (set_reg E const_buffer_cb_address_low
                     (ucast (address AND 0xFFFFFFFF)) s2)
      | _ \<Rightarrow> Fail OutOfBounds s)"

definition DefaultCBSize_SetShader :: u32 where
  "DefaultCBSize_SetShader = 0x10000"

definition SetShader :: "env \<Rightarrow> engine \<Rightarrow> u32 list \<Rightarrow> engine outcome" where
  "SetShader E s parameters =
     (case parameters of
        [p0, p1, p2, p3, p4] \<Rightarrow>
          let shader_program = p0;
              address = (ucast p2 :: GPUVAddr);
              shader_stage = p3;
              cb_address = (ucast (push_bit 8 p4 :: u32) :: GPUVAddr)
          in if \<not> unat shader_program < MaxShaderProgram E then Fail OutOfBounds s
             else
               let s1 = s\<lparr>shader_programs := (shader_programs s)(unat shader_program :=
                            \<lparr>sp_program = shader_program, sp_stage = shader_stage,
                             sp_address = address\<rparr>)\<rparr>;
                   s2 = set_reg E (shader_config_start_id (unat shader_program))
                          (ucast address) s1;
                   s3 = set_reg E const_buffer_cb_size DefaultCBSize_SetShader s2;
                   s4 = set_reg E const_buffer_cb_address_high
                          (ucast (drop_bit 32 cb_address)) s3;
                   s5 = set_reg E const_buffer_cb_address_low
                          (ucast (cb_address AND 0xFFFFFFFF)) s4
               in if \<not> unat shader_stage < MaxShaderStage then Fail OutOfBounds s5
                  else
                    let s6 = set_reg E (cb_bind_raw_config (unat shader_stage))
                               (BitField_Assign (cb_bind_valid E)
                                  (reg E s5 (cb_bind_raw_config (unat shader_stage))) 1) s5;
                        s7 = set_reg E (cb_bind_raw_config (unat shader_stage))
                               (BitField_Assign (cb_bind_index E)
                                  (reg E s6 (cb_bind_raw_config (unat shader_stage))) 1) s6
                    in ProcessCBBind E s7 shader_stage
      | _ \<Rightarrow> Fail OutOfBounds s)"

definition DefaultCBSize_BindStorageBuffer :: u32 where
  "DefaultCBSize_BindStorageBuffer = 0x5F00"

definition BindStorageBuffer :: "env \<Rightarrow> engine \<Rightarrow> u32 list \<Rightarrow> engine outcome" where
  "BindStorageBuffer E s parameters =
     (case parameters of
        [p0] \<Rightarrow>
          let buffer_offset = (push_bit 2 p0 :: u32);
              s1 = set_reg E const_buffer_cb_size DefaultCBSize_BindStorageBuffer s;
              address = SSBOBufferAddress E s1;
              s2 = set_reg E const_buffer_cb_address_high (ucast (drop_bit 32 address)) s1;
              s3 = set_reg E const_buffer_cb_address_low (ucast (address AND 0xFFFFFFFF)) s2
          in Ok (set_reg E const_buffer_cb_pos buffer_offset s3)
      | _ \<Rightarrow> Fail OutOfBounds s)"

section \<open>Macro engine\<close>

record MethodInfo =
  mi_name :: string
  arguments :: nat
  handler :: "env \<Rightarrow> engine \<Rightarrow> u32 list \<Rightarrow> engine outcome"

type_synonym handler_table = "u32 \<rightharpoonup> MethodInfo"

definition method_handlers :: handler_table where
  "method_handlers =
     [0xE1A \<mapsto> \<lparr>mi_name = ''BindTextureInfoBuffer'', arguments = 1,
                 handler = BindTextureInfoBuffer\<rparr>,
      0xE24 \<mapsto> \<lparr>mi_name = ''SetShader'', arguments = 5, handler = SetShader\<rparr>,
      0xE2A \<mapsto> \<lparr>mi_name = ''BindStorageBuffer'', arguments = 1,
                 handler = BindStorageBuffer\<rparr>]"

text \<open>
  \<^verbatim>\<open>CallMacroMethod\<close> and \<^verbatim>\<open>WriteReg\<close>, over any handler table; the engine's own are
  the instances at \<open>method_handlers\<close>.
\<close>

definition CallMacroMethod_tbl ::
  "handler_table \<Rightarrow> env \<Rightarrow> engine \<Rightarrow> u32 \<Rightarrow> u32 list \<Rightarrow> engine outcome" where
  "CallMacroMethod_tbl H E s method parameters =
     (if uploaded_macros s method = None then Fail UnknownMacro s
      else case H method of
        None \<Rightarrow> Fail UnimplementedMacro s
      | Some itr \<Rightarrow>
          if arguments itr \<noteq> length parameters then Fail ArityMismatch s
          else (case handler itr E s parameters of
                  Fail e t \<Rightarrow> Fail e t
                | Ok t \<Rightarrow> Ok (t\<lparr>executing_macro := 0, macro_params := []\<rparr>)))"

definition CallMacroMethod :: "env \<Rightarrow> engine \<Rightarrow> u32 \<Rightarrow> u32 list \<Rightarrow> engine outcome" where
  "CallMacroMethod = CallMacroMethod_tbl method_handlers"

section \<open>Write dispatcher\<close>

text \<open>The \<^verbatim>\<open>switch\<close> of \<^verbatim>\<open>WriteReg\<close> over the register just written.\<close>

definition side_effect :: "env \<Rightarrow> engine \<Rightarrow> u32 \<Rightarrow> u32 \<Rightarrow> engine outcome" where
  "side_effect E s method val =
     (let m = unat method in
      if m = reg_index E code_address_high \<or> m = reg_index E code_address_low
      then (if CodeAddress E s = 0 then Ok s else Fail UnexpectedCodeAddress s)
      else if m \<in> set (map (\<lambda>i. reg_index E (const_buffer_cb_data i)) [0..<16])
      then ProcessCBData E s val
      else if m = reg_index E (cb_bind_raw_config 0) then ProcessCBBind E s Vertex
      else if m = reg_index E (cb_bind_raw_config 1) then ProcessCBBind E s TesselationControl
      else if m = reg_index E (cb_bind_raw_config 2) then ProcessCBBind E s TesselationEval
      else if m = reg_index E (cb_bind_raw_config 3) then ProcessCBBind E s Geometry
      else if m = reg_index E (cb_bind_raw_config 4) then ProcessCBBind E s Fragment
      else if m = reg_index E draw_vertex_end_gl then Ok (DrawArrays s)
      else if m = reg_index E query_get then ProcessQueryGet E s
      else Ok s)"

definition WriteReg_tbl ::
  "handler_table \<Rightarrow> env \<Rightarrow> engine \<Rightarrow> u32 \<Rightarrow> u32 \<Rightarrow> u32 \<Rightarrow> engine outcome" where
  "WriteReg_tbl H E s method val remaining_params =
     (if \<not> unat method < NUM_REGS E then Fail InvalidRegister s
      else if executing_macro s \<noteq> 0 \<and> method \<noteq> executing_macro s + 1
      then Fail MacroArgumentExpected s
      else if method \<ge> MacroRegistersStart then
        (if executing_macro s = 0 \<and> method mod 2 \<noteq> 0 then Fail MacroStartOnArgument s
         else
           let s1 = (if executing_macro s = 0 then s\<lparr>executing_macro := method\<rparr> else s);
               s2 = s1\<lparr>macro_params := macro_params s1 @ [val]\<rparr>
           in if remaining_params = 0
              then CallMacroMethod_tbl H E s2 (executing_macro s2) (macro_params s2)
              else Ok s2)
      else
        let s1 = OnEvent MaxwellCommandLoaded s;
            s2 = s1\<lparr>reg_array := (reg_array s1)(unat method := val)\<rparr>
        in case side_effect E s2 method val of
             Fail e t \<Rightarrow> Fail e t
           | Ok s3 \<Rightarrow> Ok (OnEvent MaxwellCommandProcessed s3))"

definition WriteReg :: "env \<Rightarrow> engine \<Rightarrow> u32 \<Rightarrow> u32 \<Rightarrow> u32 \<Rightarrow> engine outcome" where
  "WriteReg = WriteReg_tbl method_handlers"

section \<open>Reading an outcome\<close>

fun state_of :: "'s outcome \<Rightarrow> 's" where
  "state_of (Ok s) = s"
| "state_of (Fail e s) = s"

fun is_Ok :: "'s outcome \<Rightarrow> bool" where
  "is_Ok (Ok s) = True"
| "is_Ok (Fail e s) = False"

text \<open>The registers that have a \<^verbatim>\<open>case\<close> label in the \<^verbatim>\<open>switch\<close> of \<^verbatim>\<open>WriteReg\<close>.\<close>

definition side_effect_registers :: "env \<Rightarrow> nat list" where
  "side_effect_registers E =
     map (reg_index E)
       ([code_address_high, code_address_low] @ map const_buffer_cb_data [0..<16]
        @ map cb_bind_raw_config [0..<MaxShaderStage] @ [draw_vertex_end_gl, query_get])"

section \<open>A concrete layout and concrete engine states\<close>

text \<open>
  One instance of the parameters, used to run the definitions on concrete inputs: register
  positions, array bounds and bit fields of a Maxwell 3D register block, and an address
  translation that adds a fixed offset.
\<close>

fun maxwell_reg_index :: "field \<Rightarrow> nat" where
  "maxwell_reg_index code_address_high = 0x582"
| "maxwell_reg_index code_address_low = 0x583"
| "maxwell_reg_index const_buffer_cb_size = 0x8E0"
| "maxwell_reg_index const_buffer_cb_address_high = 0x8E1"
| "maxwell_reg_index const_buffer_cb_address_low = 0x8E2"
| "maxwell_reg_index const_buffer_cb_pos = 0x8E3"
| "maxwell_reg_index (const_buffer_cb_data i) = 0x8E4 + i"
| "maxwell_reg_index (cb_bind_raw_config i) = 0x904 + 8 * i"
| "maxwell_reg_index draw_vertex_end_gl = 0x585"
| "maxwell_reg_index query_address_high = 0x6C0"
| "maxwell_reg_index query_address_low = 0x6C1"
| "maxwell_reg_index query_sequence = 0x6C2"
| "maxwell_reg_index query_get = 0x6C3"
| "maxwell_reg_index (tex_info_buffers_address i) = 0xD2A + i"
| "maxwell_reg_index (tex_info_buffers_size i) = 0xD2F + i"
| "maxwell_reg_index (shader_config_start_id i) = 0x801 + 16 * i"
| "maxwell_reg_index ssbo_info_buffer_address = 0xD18"
| "maxwell_reg_index tic_address_high = 0x55D"
| "maxwell_reg_index tic_address_low = 0x55E"
| "maxwell_reg_index tsc_address_high = 0x557"
| "maxwell_reg_index tsc_address_low = 0x558"
| "maxwell_reg_index tex_cb_index = 0x982"

definition word_at :: "u8 list \<Rightarrow> nat \<Rightarrow> u32" where
  "word_at bs i =
     ucast (bs ! i) OR push_bit 8 (ucast (bs ! (i + 1)))
       OR push_bit 16 (ucast (bs ! (i + 2))) OR push_bit 24 (ucast (bs ! (i + 3)))"

definition maxwell_env :: env where
  "maxwell_env =
     \<lparr>NUM_REGS = 0xE36, MaxShaderProgram = 6, MaxConstBuffers = 16,
      reg_index = maxwell_reg_index,
      cb_bind_valid = (0, 1), cb_bind_index = (4, 5),
      query_get_mode = (0, 2), QueryMode_Write = 0,
      handle_tic_id = (0, 20), handle_tsc_id = (20, 12),
      sizeof_TICEntry = 0x20, sizeof_TSCEntry = 0x20,
      tic_header_version = (\<lambda>bs. BitField_Value (21, 3) (word_at bs 8)),
      tic_texture_type = (\<lambda>bs. BitField_Value (23, 4) (word_at bs 16)),
      tic_r_type = (\<lambda>bs. BitField_Value (7, 3) (word_at bs 0)),
      tic_g_type = (\<lambda>bs. BitField_Value (10, 3) (word_at bs 0)),
      tic_b_type = (\<lambda>bs. BitField_Value (13, 3) (word_at bs 0)),
      tic_a_type = (\<lambda>bs. BitField_Value (16, 3) (word_at bs 0)),
      TICHeaderVersion_BlockLinear = 3, TextureType_Texture2D = 1,
      ssbo_info_BufferAddress = (\<lambda>r. push_bit 8 (ucast r)),
      PhysicalToVirtualAddress = (\<lambda>a. a + 0x1000)\<rparr>"

definition idle_engine :: engine where
  "idle_engine =
     \<lparr>reg_array = (\<lambda>_. 0),
      shader_programs = (\<lambda>_. \<lparr>sp_program = 0, sp_stage = 0, sp_address = 0\<rparr>),
      shader_stages = (\<lambda>_ _. \<lparr>cbi_address = 0, cbi_index = 0, cbi_size = 0,
                                cbi_enabled = False\<rparr>),
      uploaded_macros = Map.empty, executing_macro = 0, macro_params = [],
      guest_memory = (\<lambda>_. 0), debug_context = True, trace = []\<rparr>"

text \<open>The idle engine after the upload of macro entries 13 (\<^verbatim>\<open>0xE1A\<close>) and 18 (\<^verbatim>\<open>0xE24\<close>).\<close>

definition uploaded_engine :: engine where
  "uploaded_engine = SubmitMacroCode (SubmitMacroCode idle_engine 13 [1, 2]) 18 [3]"

text \<open>The uploaded engine with a nonzero texture-info-buffer size for the fragment stage.\<close>

definition tex_size_engine :: engine where
  "tex_size_engine = uploaded_engine\<lparr>reg_array := (\<lambda>_. 0)(0xD33 := 0x100)\<rparr>"

text \<open>
  The state \<^verbatim>\<open>WriteReg\<close> reaches on a macro register before it decides whether to call
  the macro: the pending id is set if none was, and the value is appended.
\<close>

definition pending_after :: "engine \<Rightarrow> u32 \<Rightarrow> u32 \<Rightarrow> engine" where
  "pending_after s m v =
     s\<lparr>executing_macro := (if executing_macro s = 0 then m else executing_macro s),
       macro_params := macro_params s @ [v]\<rparr>"

text \<open>
  The state \<^verbatim>\<open>WriteReg\<close> reaches on an ordinary register before the \<^verbatim>\<open>switch\<close>:
  the command-loaded event is sent and the value is in \<^verbatim>\<open>reg_array\<close>.
\<close>

definition stored :: "engine \<Rightarrow> u32 \<Rightarrow> u32 \<Rightarrow> engine" where
  "stored s m v =
     (OnEvent MaxwellCommandLoaded s)
       \<lparr>reg_array := (reg_array (OnEvent MaxwellCommandLoaded s))(unat m := v)\<rparr>"

text \<open>A run of streamed writes, one after the other, stopping at the first failure.\<close>

fun ProcessCBData_seq :: "env \<Rightarrow> engine \<Rightarrow> u32 list \<Rightarrow> engine outcome" where
  "ProcessCBData_seq E s [] = Ok s"
| "ProcessCBData_seq E s (v # vs) =
     (case ProcessCBData E s v of
        Fail e t \<Rightarrow> Fail e t
      | Ok t \<Rightarrow> ProcessCBData_seq E t vs)"

text \<open>
  An engine with a constant buffer of 4 bytes bound at \<^verbatim>\<open>0x5000\<close>, cursor 0, and with
  query address \<^verbatim>\<open>0x7000\<close> and query sequence number \<^verbatim>\<open>0xABCD\<close>.
\<close>

definition bound_engine :: engine where
  "bound_engine =
     idle_engine\<lparr>reg_array :=
       (\<lambda>_. 0)(0x8E0 := 4, 0x8E2 := 0x5000, 0x6C1 := 0x7000, 0x6C2 := 0xABCD)\<rparr>"

text \<open>The same buffer with the cursor at its end, and with room for four words.\<close>

definition full_engine :: engine where
  "full_engine = bound_engine\<lparr>reg_array := (reg_array bound_engine)(0x8E3 := 4)\<rparr>"

definition roomy_engine :: engine where
  "roomy_engine = bound_engine\<lparr>reg_array := (reg_array bound_engine)(0x8E0 := 0x10)\<rparr>"

text \<open>The bound engine with query mode 1 in \<^verbatim>\<open>query_get\<close>, which is not \<^verbatim>\<open>Write\<close>.\<close>

definition sync_query_engine :: engine where
  "sync_query_engine = bound_engine\<lparr>reg_array := (reg_array bound_engine)(0x6C3 := 1)\<rparr>"

text \<open>
  An engine whose fragment stage has texture-info-buffer address register 1 and size
  register \<^verbatim>\<open>0x100\<close>.
\<close>

definition tex_info_engine :: engine where
  "tex_info_engine = idle_engine\<lparr>reg_array := (\<lambda>_. 0)(0xD2E := 1, 0xD33 := 0x100)\<rparr>"

section \<open>Texture descriptor resolver\<close>

text \<open>
  \<^verbatim>\<open>textures/texture.h\<close> is not part of the source. A descriptor (\<^verbatim>\<open>TICEntry\<close>,
  \<^verbatim>\<open>TSCEntry\<close>) is kept as the block of bytes \<^verbatim>\<open>Memory::ReadBlock\<close> fills it with; its
  size and the accessors of its bit fields are parameters in \<open>env\<close>. A texture handle is
  built from one \<^verbatim>\<open>Read32\<close>, so it occupies 4 bytes.
\<close>

type_synonym TICEntry = "u8 list"
type_synonym TSCEntry = "u8 list"

definition sizeof_TextureHandle :: nat where
  "sizeof_TextureHandle = 4"

definition TextureInfoOffset :: GPUVAddr where
  "TextureInfoOffset = 0x20"

record FullTextureInfo =
  ti_index :: u32
  ti_tic :: TICEntry
  ti_tsc :: TSCEntry
  ti_enabled :: bool

definition GetTICEntry :: "env \<Rightarrow> engine \<Rightarrow> u32 \<Rightarrow> error + TICEntry" where
  "GetTICEntry E s tic_index =
     (let tic_base_address = TICAddress E s;
          tic_address_gpu = tic_base_address + ucast tic_index * of_nat (sizeof_TICEntry E);
          tic_address_cpu = PhysicalToVirtualAddress E tic_address_gpu;
          tic_entry = ReadBlock (guest_memory s) tic_address_cpu (sizeof_TICEntry E)
      in if tic_header_version E tic_entry \<noteq> TICHeaderVersion_BlockLinear E
         then Inl UnsupportedTextureFormat
         else if tic_texture_type E tic_entry \<noteq> TextureType_Texture2D E
         then Inl UnsupportedTextureFormat
         else
           let r_type = tic_r_type E tic_entry;
               g_type = tic_g_type E tic_entry;
               b_type = tic_b_type E tic_entry;
               a_type = tic_a_type E tic_entry
           in if \<not> (r_type = g_type \<and> r_type = b_type \<and> r_type = a_type)
              then Inl UnsupportedTextureFormat
              else Inr tic_entry)"

definition GetTSCEntry :: "env \<Rightarrow> engine \<Rightarrow> u32 \<Rightarrow> TSCEntry" where
  "GetTSCEntry E s tsc_index =
     (let tsc_base_address = TSCAddress E s;
          tsc_address_gpu = tsc_base_address + ucast tsc_index * of_nat (sizeof_TSCEntry E);
          tsc_address_cpu = PhysicalToVirtualAddress E tsc_address_gpu
      in ReadBlock (guest_memory s) tsc_address_cpu (sizeof_TSCEntry E))"

text \<open>
  The body of the loop of \<^verbatim>\<open>GetStageTextures\<close> for the handle at \<open>current_texture\<close>:
  the texture info it builds, or the failed assertion of \<^verbatim>\<open>GetTICEntry\<close>. A value
  initialised with \<^verbatim>\<open>tex_info{}\<close> is all zero.
\<close>

definition texture_at ::
  "env \<Rightarrow> engine \<Rightarrow> GPUVAddr \<Rightarrow> GPUVAddr \<Rightarrow> error + FullTextureInfo" where
  "texture_at E s buffer_address current_texture =
     (let tex_handle = Read32 (guest_memory s) (PhysicalToVirtualAddress E current_texture);
          index = (ucast ((current_texture - buffer_address - TextureInfoOffset)
                            div of_nat sizeof_TextureHandle) :: u32);
          tic_id = BitField_Value (handle_tic_id E) tex_handle;
          tsc_id = BitField_Value (handle_tsc_id E) tex_handle
      in case (if tic_id \<noteq> 0 then GetTICEntry E s tic_id
               else Inr (replicate (sizeof_TICEntry E) 0)) of
           Inl e \<Rightarrow> Inl e
         | Inr tic \<Rightarrow>
             Inr \<lparr>ti_index = index,
                  ti_tic = tic,
                  ti_tsc = (if tsc_id \<noteq> 0 then GetTSCEntry E s tsc_id
                            else replicate (sizeof_TSCEntry E) 0),
                  ti_enabled = (tic_id \<noteq> 0)\<rparr>)"

text \<open>
  The loop itself. Its counter is a 64-bit address that can wrap around, so the loop need
  not end: not returning is the value \<open>None\<close>.
\<close>

partial_function (option) texture_loop ::
  "env \<Rightarrow> engine \<Rightarrow> GPUVAddr \<Rightarrow> GPUVAddr \<Rightarrow> GPUVAddr \<Rightarrow> FullTextureInfo list
     \<Rightarrow> (error + FullTextureInfo list) option" where
  "texture_loop E s buffer_address tex_info_buffer_end current_texture textures =
     (if current_texture < tex_info_buffer_end
      then (case texture_at E s buffer_address current_texture of
              Inl e \<Rightarrow> Some (Inl e)
            | Inr tex_info \<Rightarrow>
                texture_loop E s buffer_address tex_info_buffer_end
                  (current_texture + of_nat sizeof_TextureHandle)
                  (if ti_enabled tex_info then textures @ [tex_info] else textures))
      else Some (Inr textures))"

definition GetStageTextures ::
  "env \<Rightarrow> engine \<Rightarrow> ShaderStage \<Rightarrow> (error + FullTextureInfo list) option" where
  "GetStageTextures E s stage =
     (if \<not> unat stage < MaxShaderStage then Some (Inl OutOfBounds)
      else if \<not> unat (reg E s tex_cb_index) < MaxConstBuffers E then Some (Inl OutOfBounds)
      else
        let tex_info_buffer = shader_stages s (unat stage) (unat (reg E s tex_cb_index))
        in if \<not> (cbi_enabled tex_info_buffer \<and> cbi_address tex_info_buffer \<noteq> 0)
           then Some (Inl TextureBufferNotBound)
           else
             let tex_info_buffer_end =
                   cbi_address tex_info_buffer + ucast (cbi_size tex_info_buffer)
             in texture_loop E s (cbi_address tex_info_buffer) tex_info_buffer_end
                  (cbi_address tex_info_buffer + TextureInfoOffset) [])"

text \<open>
  The scan in the words of the specification: handle \<open>k\<close> of a buffer is the 32-bit word
  at offset \<open>0x20 + 4 * k\<close>; a buffer of \<open>sz\<close> bytes holds the handles that start
  before its end; a handle with a nonzero texture id resolves to an enabled entry with
  index \<open>k\<close>, its texture descriptor and, for a nonzero sampler id, its sampler descriptor.
\<close>

definition handle_address :: "GPUVAddr \<Rightarrow> nat \<Rightarrow> GPUVAddr" where
  "handle_address base k = base + 0x20 + of_nat (4 * k)"

definition handle_count :: "u32 \<Rightarrow> nat" where
  "handle_count sz = (unat sz - 0x20 + 3) div 4"

definition texture_handle :: "env \<Rightarrow> engine \<Rightarrow> GPUVAddr \<Rightarrow> nat \<Rightarrow> u32" where
  "texture_handle E s base k =
     Read32 (guest_memory s) (PhysicalToVirtualAddress E (handle_address base k))"

definition has_texture :: "env \<Rightarrow> engine \<Rightarrow> GPUVAddr \<Rightarrow> nat \<Rightarrow> bool" where
  "has_texture E s base k \<longleftrightarrow>
     BitField_Value (handle_tic_id E) (texture_handle E s base k) \<noteq> 0"

definition resolved_texture :: "env \<Rightarrow> engine \<Rightarrow> GPUVAddr \<Rightarrow> nat \<Rightarrow> FullTextureInfo" where
  "resolved_texture E s base k =
     (let h = texture_handle E s base k;
          tsc_id = BitField_Value (handle_tsc_id E) h
      in \<lparr>ti_index = of_nat k,
          ti_tic = projr (GetTICEntry E s (BitField_Value (handle_tic_id E) h)),
          ti_tsc = (if tsc_id \<noteq> 0 then GetTSCEntry E s tsc_id
                    else replicate (sizeof_TSCEntry E) 0),
          ti_enabled = True\<rparr>)"

text \<open>The three conditions of \<^verbatim>\<open>GetTICEntry\<close> on a descriptor.\<close>

definition supported_tic :: "env \<Rightarrow> TICEntry \<Rightarrow> bool" where
  "supported_tic E tic \<longleftrightarrow>
     tic_header_version E tic = TICHeaderVersion_BlockLinear E \<and>
     tic_texture_type E tic = TextureType_Texture2D E \<and>
     tic_r_type E tic = tic_g_type E tic \<and> tic_r_type E tic = tic_b_type E tic \<and>
     tic_r_type E tic = tic_a_type E tic"

text \<open>The descriptor bytes \<^verbatim>\<open>GetTICEntry\<close> reads for an index.\<close>

definition tic_block :: "env \<Rightarrow> engine \<Rightarrow> u32 \<Rightarrow> TICEntry" where
  "tic_block E s tic_index =
     ReadBlock (guest_memory s)
       (PhysicalToVirtualAddress E
          (TICAddress E s + ucast tic_index * of_nat (sizeof_TICEntry E)))
       (sizeof_TICEntry E)"

text \<open>
  An engine whose fragment stage has a texture-info buffer of \<^verbatim>\<open>0x28\<close> bytes bound at
  \<^verbatim>\<open>0x9000\<close> in slot 2, the slot the texture config buffer index register selects. The
  buffer holds two handles: the first with texture id 1, the second zero. Descriptor 1 of
  the table at address 0 is block linear, 2D, with equal component types. In the second
  engine the descriptor is all zero instead.
\<close>

definition texture_engine :: engine where
  "texture_engine =
     idle_engine
       \<lparr>reg_array := (\<lambda>_. 0)(0x982 := 2),
        shader_stages := (shader_stages idle_engine)
          (4 := (shader_stages idle_engine 4)
             (2 := \<lparr>cbi_address = 0x9000, cbi_index = 2, cbi_size = 0x28,
                     cbi_enabled = True\<rparr>)),
        guest_memory := (\<lambda>_. 0)(0xA020 := 1, 0x102A := 0x60, 0x1032 := 0x80)\<rparr>"

definition bad_texture_engine :: engine where
  "bad_texture_engine = texture_engine\<lparr>guest_memory := (\<lambda>_. 0)(0xA020 := 1)\<rparr>"

text \<open>
  The write sequence of a split macro call, in the words of the specification: the entry
  register \<open>e\<close> with the first parameter, then the argument register \<open>e + 1\<close> with each
  further parameter, the remaining-in-batch count going down by one at each write;
  \<open>rest\<close> is the count at the last write of the sequence (0 for a complete call). For
  three parameters and \<open>rest = 0\<close> these are the writes \<open>(e, v0, 2)\<close>, \<open>(e + 1, v1, 1)\<close>,
  \<open>(e + 1, v2, 0)\<close>. The sequence stops at the first write that fails.
\<close>

fun write_arguments :: "env \<Rightarrow> engine \<Rightarrow> u32 \<Rightarrow> nat \<Rightarrow> u32 list \<Rightarrow> engine outcome" where
  "write_arguments E s e rest [] = Ok s"
| "write_arguments E s e rest (v # vs) =
     (case WriteReg E s (e + 1) v (of_nat (length vs + rest)) of
        Fail er t \<Rightarrow> Fail er t
      | Ok t \<Rightarrow> write_arguments E t e rest vs)"

definition split_macro_call_writes ::
  "env \<Rightarrow> engine \<Rightarrow> u32 \<Rightarrow> nat \<Rightarrow> u32 \<Rightarrow> u32 list \<Rightarrow> engine outcome" where
  "split_macro_call_writes E s e rest v0 vs =
     (case WriteReg E s e v0 (of_nat (length vs + rest)) of
        Fail er t \<Rightarrow> Fail er t
      | Ok t \<Rightarrow> write_arguments E t e rest vs)"

section \<open>Basic facts\<close>

lemma wf_layout_maxwell_env: "wf_layout maxwell_env"
  by (simp add: wf_layout_def all_fields_def maxwell_env_def MaxShaderStage_def upt_rec)

lemma method_handlers_None:
  "method_handlers m = None \<longleftrightarrow> m \<noteq> 0xE1A \<and> m \<noteq> 0xE24 \<and> m \<noteq> 0xE2A"
  by (simp add: method_handlers_def)

lemma set_reg_simps [simp]:
  "trace (set_reg E f v s) = trace s"
  "guest_memory (set_reg E f v s) = guest_memory s"
  "shader_stages (set_reg E f v s) = shader_stages s"
  "shader_programs (set_reg E f v s) = shader_programs s"
  "uploaded_macros (set_reg E f v s) = uploaded_macros s"
  "executing_macro (set_reg E f v s) = executing_macro s"
  "macro_params (set_reg E f v s) = macro_params s"
  "debug_context (set_reg E f v s) = debug_context s"
  "reg_array (set_reg E f v s) = (reg_array s)(reg_index E f := v)"
  by (simp_all add: set_reg_def)

lemma uploaded_engine_macros:
  "uploaded_macros uploaded_engine 0xE1A = Some [1, 2]"
  "uploaded_macros uploaded_engine 0xE24 = Some [3]"
  "uploaded_macros idle_engine m = None"
  by (simp_all add: uploaded_engine_def idle_engine_def SubmitMacroCode_def
        MacroRegistersStart_def)

section \<open>The macro engine\<close>

text \<open>
  Claim C5. \<^verbatim>\<open>CallMacroMethod\<close> checks, in this order: that microcode was uploaded for
  the id (else \<open>UnknownMacro\<close>, whatever the handler table and the parameters are); that
  the id is in the static handler table (else \<open>UnimplementedMacro\<close>; an upload of entry
  \<open>e\<close> is stored under \<open>e * 2 + MacroRegistersStart\<close>); that the number of parameters is
  the handler's arity (else the contract violation \<open>ArityMismatch\<close>). A failed check
  leaves the state as it was. Only when all three pass is the handler run, and the
  pending macro id and the parameter sequence are cleared after it.
\<close>

theorem CallMacroMethod_checks:
  "(uploaded_macros s meth = None \<longrightarrow>
      CallMacroMethod E s meth ps = Fail UnknownMacro s) \<and>
   (entry * 2 + MacroRegistersStart \<notin> {0xE1A, 0xE24, 0xE2A} \<longrightarrow>
      CallMacroMethod E (SubmitMacroCode s entry code) (entry * 2 + MacroRegistersStart) ps
        = Fail UnimplementedMacro (SubmitMacroCode s entry code)) \<and>
   (uploaded_macros s meth \<noteq> None \<and> method_handlers meth = Some mi \<and>
      arguments mi \<noteq> length ps \<longrightarrow>
      CallMacroMethod E s meth ps = Fail ArityMismatch s \<and>
      is_contract_violation ArityMismatch) \<and>
   (uploaded_macros s meth \<noteq> None \<and> method_handlers meth = Some mi \<and>
      arguments mi = length ps \<and> handler mi E s ps = Ok t \<longrightarrow>
      CallMacroMethod E s meth ps = Ok (t\<lparr>executing_macro := 0, macro_params := []\<rparr>)) \<and>
   (CallMacroMethod E s meth ps = Ok s' \<longrightarrow>
      uploaded_macros s meth \<noteq> None \<and>
      (\<exists>mi t. method_handlers meth = Some mi \<and> arguments mi = length ps \<and>
         handler mi E s ps = Ok t \<and> s' = t\<lparr>executing_macro := 0, macro_params := []\<rparr>) \<and>
      executing_macro s' = 0 \<and> macro_params s' = [])"
proof (intro conjI impI)
  assume "uploaded_macros s meth = None"
  then show "CallMacroMethod E s meth ps = Fail UnknownMacro s"
    by (simp add: CallMacroMethod_def CallMacroMethod_tbl_def)
next
  assume "entry * 2 + MacroRegistersStart \<notin> {0xE1A, 0xE24, 0xE2A}"
  then have "method_handlers (entry * 2 + MacroRegistersStart) = None"
    by (simp add: method_handlers_None)
  then show "CallMacroMethod E (SubmitMacroCode s entry code)
      (entry * 2 + MacroRegistersStart) ps
      = Fail UnimplementedMacro (SubmitMacroCode s entry code)"
    by (simp add: CallMacroMethod_def CallMacroMethod_tbl_def SubmitMacroCode_def)
next
  assume "uploaded_macros s meth \<noteq> None \<and> method_handlers meth = Some mi \<and>
      arguments mi \<noteq> length ps"
  then show "CallMacroMethod E s meth ps = Fail ArityMismatch s"
    by (simp add: CallMacroMethod_def CallMacroMethod_tbl_def)
next
  show "is_contract_violation ArityMismatch" by simp
next
  assume "uploaded_macros s meth \<noteq> None \<and> method_handlers meth = Some mi \<and>
      arguments mi = length ps \<and> handler mi E s ps = Ok t"
  then show "CallMacroMethod E s meth ps
      = Ok (t\<lparr>executing_macro := 0, macro_params := []\<rparr>)"
    by (simp add: CallMacroMethod_def CallMacroMethod_tbl_def)
next
  assume ok: "CallMacroMethod E s meth ps = Ok s'"
  then show "uploaded_macros s meth \<noteq> None"
    by (auto simp: CallMacroMethod_def CallMacroMethod_tbl_def split: if_splits)
  from ok show "\<exists>mi t. method_handlers meth = Some mi \<and> arguments mi = length ps \<and>
         handler mi E s ps = Ok t \<and> s' = t\<lparr>executing_macro := 0, macro_params := []\<rparr>"
    by (auto simp: CallMacroMethod_def CallMacroMethod_tbl_def
          split: option.splits outcome.splits if_splits)
  from ok show "executing_macro s' = 0"
    by (auto simp: CallMacroMethod_def CallMacroMethod_tbl_def
          split: option.splits outcome.splits if_splits)
  from ok show "macro_params s' = []"
    by (auto simp: CallMacroMethod_def CallMacroMethod_tbl_def
          split: option.splits outcome.splits if_splits)
qed

theorem CallMacroMethod_checks_witness:
  "CallMacroMethod maxwell_env idle_engine 0xE1A [4] = Fail UnknownMacro idle_engine \<and>
   CallMacroMethod maxwell_env (SubmitMacroCode idle_engine 0 [7]) 0xE00 [4]
     = Fail UnimplementedMacro (SubmitMacroCode idle_engine 0 [7]) \<and>
   CallMacroMethod maxwell_env uploaded_engine 0xE1A [] = Fail ArityMismatch uploaded_engine \<and>
   is_Ok (CallMacroMethod maxwell_env uploaded_engine 0xE1A [4]) \<and>
   executing_macro (state_of (CallMacroMethod maxwell_env uploaded_engine 0xE1A [4])) = 0 \<and>
   macro_params (state_of (CallMacroMethod maxwell_env uploaded_engine 0xE1A [4])) = []"
proof -
  let ?mi = "\<lparr>mi_name = ''BindTextureInfoBuffer'', arguments = 1,
              handler = BindTextureInfoBuffer\<rparr>"
  have mi: "method_handlers 0xE1A = Some ?mi"
    by (simp add: method_handlers_def)
  have a: "CallMacroMethod maxwell_env idle_engine 0xE1A [4] = Fail UnknownMacro idle_engine"
    using CallMacroMethod_checks [where s = idle_engine and meth = "0xE1A"
        and E = maxwell_env and ps = "[4]", THEN conjunct1]
    by (simp add: uploaded_engine_macros)
  have b: "CallMacroMethod maxwell_env (SubmitMacroCode idle_engine 0 [7]) 0xE00 [4]
     = Fail UnimplementedMacro (SubmitMacroCode idle_engine 0 [7])"
    using CallMacroMethod_checks [where s = idle_engine and entry = 0 and code = "[7]"
        and E = maxwell_env and ps = "[4]", THEN conjunct2, THEN conjunct1]
    by (simp add: MacroRegistersStart_def)
  have c: "CallMacroMethod maxwell_env uploaded_engine 0xE1A [] = Fail ArityMismatch uploaded_engine"
    using CallMacroMethod_checks [where s = uploaded_engine and meth = "0xE1A"
        and E = maxwell_env and ps = "[]" and mi = ?mi,
        THEN conjunct2, THEN conjunct2, THEN conjunct1] mi
    by (simp add: uploaded_engine_macros)
  define t where "t = state_of (BindTextureInfoBuffer maxwell_env uploaded_engine [4])"
  have t: "BindTextureInfoBuffer maxwell_env uploaded_engine [4] = Ok t"
    unfolding t_def by (simp add: BindTextureInfoBuffer_def MaxShaderStage_def Let_def)
  have d: "CallMacroMethod maxwell_env uploaded_engine 0xE1A [4]
      = Ok (t\<lparr>executing_macro := 0, macro_params := []\<rparr>)"
    using CallMacroMethod_checks [where s = uploaded_engine and meth = "0xE1A"
        and E = maxwell_env and ps = "[4]" and mi = ?mi and t = t,
        THEN conjunct2, THEN conjunct2, THEN conjunct2, THEN conjunct1] mi t
    by (simp add: uploaded_engine_macros)
  from a b c d show ?thesis by simp
qed

section \<open>The write dispatcher\<close>

lemma even_word_succ_le:
  "(x::u32) mod 2 = 0 \<Longrightarrow> c \<le> x \<Longrightarrow> c \<le> x + 1"
proof -
  assume a: "x mod 2 = 0" and b: "c \<le> x"
  from a have "x \<noteq> - 1" by auto
  then have "x \<le> x + 1" using inc_less_eq_self_iff_eq [of x] by auto
  with b show ?thesis by simp
qed

lemma MacroRegistersStart_nonzero: "MacroRegistersStart \<le> x \<Longrightarrow> x \<noteq> 0"
  by (auto simp: MacroRegistersStart_def)

lemma ProcessCBBind_frame:
  "reg_array (state_of (ProcessCBBind E s st)) = reg_array s \<and>
   trace (state_of (ProcessCBBind E s st)) = trace s \<and>
   guest_memory (state_of (ProcessCBBind E s st)) = guest_memory s"
  by (simp add: ProcessCBBind_def Let_def)

lemma BindTextureInfoBuffer_frame:
  "trace (state_of (BindTextureInfoBuffer E s ps)) = trace s \<and>
   guest_memory (state_of (BindTextureInfoBuffer E s ps)) = guest_memory s"
  by (simp add: BindTextureInfoBuffer_def Let_def split: list.splits)

lemma BindStorageBuffer_frame:
  "trace (state_of (BindStorageBuffer E s ps)) = trace s \<and>
   guest_memory (state_of (BindStorageBuffer E s ps)) = guest_memory s"
  by (simp add: BindStorageBuffer_def Let_def split: list.splits)

lemma SetShader_frame:
  "trace (state_of (SetShader E s ps)) = trace s \<and>
   guest_memory (state_of (SetShader E s ps)) = guest_memory s"
  by (simp add: SetShader_def Let_def ProcessCBBind_frame split: list.splits)

lemma method_handlers_cases:
  "method_handlers m = Some mi \<Longrightarrow>
     handler mi = BindTextureInfoBuffer \<or> handler mi = SetShader \<or>
     handler mi = BindStorageBuffer"
  by (auto simp: method_handlers_def split: if_splits)

lemma handler_frame:
  assumes "method_handlers m = Some mi"
  shows "trace (state_of (handler mi E s ps)) = trace s \<and>
         guest_memory (state_of (handler mi E s ps)) = guest_memory s"
  using method_handlers_cases [OF assms]
  by (auto simp: BindTextureInfoBuffer_frame SetShader_frame BindStorageBuffer_frame)

lemma CallMacroMethod_frame:
  "trace (state_of (CallMacroMethod E s m ps)) = trace s \<and>
   guest_memory (state_of (CallMacroMethod E s m ps)) = guest_memory s"
proof (cases "uploaded_macros s m = None")
  case True
  then show ?thesis by (simp add: CallMacroMethod_def CallMacroMethod_tbl_def)
next
  case up: False
  show ?thesis
  proof (cases "method_handlers m")
    case None
    with up show ?thesis by (simp add: CallMacroMethod_def CallMacroMethod_tbl_def)
  next
    case (Some mi)
    from handler_frame [OF Some, of E s ps] Some up show ?thesis
      by (cases "handler mi E s ps")
         (simp_all add: CallMacroMethod_def CallMacroMethod_tbl_def)
  qed
qed

lemma pending_after_simps:
  "trace (pending_after s m v) = trace s"
  "guest_memory (pending_after s m v) = guest_memory s"
  "reg_array (pending_after s m v) = reg_array s"
  "shader_programs (pending_after s m v) = shader_programs s"
  "shader_stages (pending_after s m v) = shader_stages s"
  "uploaded_macros (pending_after s m v) = uploaded_macros s"
  "debug_context (pending_after s m v) = debug_context s"
  "macro_params (pending_after s m v) = macro_params s @ [v]"
  "executing_macro (pending_after s m v) = (if executing_macro s = 0 then m else executing_macro s)"
  by (simp_all add: pending_after_def)

lemma WriteReg_tbl_macro:
  assumes "MacroRegistersStart \<le> m"
  shows "WriteReg_tbl H E s m v r =
     (if \<not> unat m < NUM_REGS E then Fail InvalidRegister s
      else if executing_macro s \<noteq> 0 \<and> m \<noteq> executing_macro s + 1
      then Fail MacroArgumentExpected s
      else if executing_macro s = 0 \<and> m mod 2 \<noteq> 0 then Fail MacroStartOnArgument s
      else if r = 0
      then CallMacroMethod_tbl H E (pending_after s m v)
             (executing_macro (pending_after s m v)) (macro_params s @ [v])
      else Ok (pending_after s m v))"
  using assms by (auto simp: WriteReg_tbl_def pending_after_def Let_def)

text \<open>
  Claim C10, as amended. A write to a register in the macro range never sends a trace event
  and never writes guest memory, so the \<^verbatim>\<open>switch\<close> over ordinary registers is not
  applied. While parameters remain in the batch it leaves the register file and the shader
  tables as they were and only updates the pending id and the parameter sequence. When no
  parameter remains, the write is the macro call on that pending state: the register file
  then changes exactly as the called handler changes it.
\<close>

theorem WriteReg_macro_range_frame:
  assumes "MacroRegistersStart \<le> m"
  shows "trace (state_of (WriteReg E s m v r)) = trace s \<and>
         guest_memory (state_of (WriteReg E s m v r)) = guest_memory s \<and>
         (r \<noteq> 0 \<longrightarrow>
            reg_array (state_of (WriteReg E s m v r)) = reg_array s \<and>
            shader_programs (state_of (WriteReg E s m v r)) = shader_programs s \<and>
            shader_stages (state_of (WriteReg E s m v r)) = shader_stages s) \<and>
         (r \<noteq> 0 \<and> is_Ok (WriteReg E s m v r) \<longrightarrow>
            WriteReg E s m v r = Ok (pending_after s m v)) \<and>
         (r = 0 \<and> is_Ok (WriteReg E s m v r) \<longrightarrow>
            WriteReg E s m v r =
              CallMacroMethod E (pending_after s m v)
                (executing_macro (pending_after s m v)) (macro_params s @ [v]))"
proof -
  note W = WriteReg_tbl_macro [OF assms, of method_handlers E s v r,
      folded WriteReg_def CallMacroMethod_def]
  show ?thesis
    unfolding W by (simp add: CallMacroMethod_frame pending_after_simps)
qed

lemmas run_defs =
  WriteReg_def WriteReg_tbl_def CallMacroMethod_def CallMacroMethod_tbl_def method_handlers_def
  side_effect_def BindTextureInfoBuffer_def reg_def set_reg_def maxwell_env_def
  MacroRegistersStart_def MaxShaderStage_def Let_def OnEvent_def pending_after_def

lemma tex_size_engine_simps:
  "uploaded_macros tex_size_engine 0xE1A = Some [1, 2]"
  "executing_macro tex_size_engine = 0"
  "macro_params tex_size_engine = []"
  "reg_array tex_size_engine = (\<lambda>_. 0)(0xD33 := 0x100)"
  by (simp_all add: tex_size_engine_def uploaded_engine_def idle_engine_def SubmitMacroCode_def
        MacroRegistersStart_def)

text \<open>
  Claim C10 as stated fails: the last write of a macro call runs the handler, and the
  handlers write registers. Here \<^verbatim>\<open>BindTextureInfoBuffer\<close> copies the fragment stage's
  texture-info-buffer size into \<^verbatim>\<open>const_buffer.cb_size\<close> (register \<^verbatim>\<open>0x8E0\<close>).
\<close>

theorem WriteReg_macro_range_counterexample:
  "MacroRegistersStart \<le> 0xE1A \<and>
   is_Ok (WriteReg maxwell_env tex_size_engine 0xE1A 4 0) \<and>
   reg_array tex_size_engine 0x8E0 = 0 \<and>
   reg_array (state_of (WriteReg maxwell_env tex_size_engine 0xE1A 4 0)) 0x8E0 = 0x100"
  by (simp add: run_defs tex_size_engine_simps)

theorem WriteReg_macro_range_frame_witness:
  "MacroRegistersStart \<le> 0xE1A \<and>
   WriteReg maxwell_env tex_size_engine 0xE1A 4 1 = Ok (pending_after tex_size_engine 0xE1A 4) \<and>
   reg_array (state_of (WriteReg maxwell_env tex_size_engine 0xE1A 4 1))
     = reg_array tex_size_engine \<and>
   trace (state_of (WriteReg maxwell_env tex_size_engine 0xE1A 4 0)) = trace tex_size_engine \<and>
   WriteReg maxwell_env tex_size_engine 0xE1A 4 0
     = CallMacroMethod maxwell_env (pending_after tex_size_engine 0xE1A 4) 0xE1A [4]"
proof -
  have h: "MacroRegistersStart \<le> 0xE1A"
    by (simp add: MacroRegistersStart_def)
  have ok1: "is_Ok (WriteReg maxwell_env tex_size_engine 0xE1A 4 1)"
    by (simp add: run_defs tex_size_engine_simps)
  have ok0: "is_Ok (WriteReg maxwell_env tex_size_engine 0xE1A 4 0)"
    by (simp add: run_defs tex_size_engine_simps)
  note T1 = WriteReg_macro_range_frame [OF h, of maxwell_env tex_size_engine 4 1]
  note T0 = WriteReg_macro_range_frame [OF h, of maxwell_env tex_size_engine 4 0]
  have a: "WriteReg maxwell_env tex_size_engine 0xE1A 4 1
      = Ok (pending_after tex_size_engine 0xE1A 4)"
    using T1 [THEN conjunct2, THEN conjunct2, THEN conjunct2, THEN conjunct1] ok1 by simp
  have b: "reg_array (state_of (WriteReg maxwell_env tex_size_engine 0xE1A 4 1))
     = reg_array tex_size_engine"
    using T1 [THEN conjunct2, THEN conjunct2, THEN conjunct1] by simp
  have c: "trace (state_of (WriteReg maxwell_env tex_size_engine 0xE1A 4 0))
      = trace tex_size_engine"
    using T0 [THEN conjunct1] by simp
  have d: "WriteReg maxwell_env tex_size_engine 0xE1A 4 0
     = CallMacroMethod maxwell_env (pending_after tex_size_engine 0xE1A 4) 0xE1A [4]"
    using T0 [THEN conjunct2, THEN conjunct2, THEN conjunct2, THEN conjunct2] ok0
    by (simp add: pending_after_simps tex_size_engine_simps)
  from h a b c d show ?thesis by simp
qed

lemma reg_index_neq:
  assumes "wf_layout E" "f \<in> set (all_fields E)" "g \<in> set (all_fields E)" "f \<noteq> g"
  shows "reg_index E f \<noteq> reg_index E g"
proof -
  from assms(1) have "inj_on (reg_index E) (set (all_fields E))"
    by (simp add: wf_layout_def distinct_map)
  with assms(2-4) show ?thesis by (auto dest: inj_onD)
qed

lemma all_fields_mem:
  "const_buffer_cb_size \<in> set (all_fields E)"
  "const_buffer_cb_address_high \<in> set (all_fields E)"
  "const_buffer_cb_address_low \<in> set (all_fields E)"
  "const_buffer_cb_pos \<in> set (all_fields E)"
  "i < 16 \<Longrightarrow> const_buffer_cb_data i \<in> set (all_fields E)"
  "i < MaxShaderStage \<Longrightarrow> cb_bind_raw_config i \<in> set (all_fields E)"
  "i < MaxShaderStage \<Longrightarrow> tex_info_buffers_address i \<in> set (all_fields E)"
  "i < MaxShaderStage \<Longrightarrow> tex_info_buffers_size i \<in> set (all_fields E)"
  "i < MaxShaderProgram E \<Longrightarrow> shader_config_start_id i \<in> set (all_fields E)"
  by (simp_all add: all_fields_def)

lemma ProcessCBData_reg_array:
  "reg_array (state_of (ProcessCBData E s v)) k =
     (if is_Ok (ProcessCBData E s v) \<and> k = reg_index E const_buffer_cb_pos
      then reg E s const_buffer_cb_pos + 4 else reg_array s k)"
  by (simp add: ProcessCBData_def Let_def reg_def)

lemma ProcessQueryGet_reg_array:
  "reg_array (state_of (ProcessQueryGet E s)) = reg_array s"
  by (simp add: ProcessQueryGet_def Let_def)

lemma DrawArrays_reg_array: "reg_array (DrawArrays s) = reg_array s"
  by (simp add: DrawArrays_def OnEvent_def Let_def)

lemma side_effect_reg_array:
  assumes "wf_layout E"
  shows "reg_array (state_of (side_effect E s m v)) (unat m) = reg_array s (unat m)"
proof (cases "unat m \<in> set (map (\<lambda>i. reg_index E (const_buffer_cb_data i)) [0..<16])")
  case True
  then obtain i where i: "i < 16" "unat m = reg_index E (const_buffer_cb_data i)"
    by auto
  from reg_index_neq [OF assms all_fields_mem(5) all_fields_mem(4), of i] i
  have "unat m \<noteq> reg_index E const_buffer_cb_pos" by simp
  then show ?thesis
    by (simp add: side_effect_def Let_def ProcessCBData_reg_array ProcessCBBind_frame
          ProcessQueryGet_reg_array DrawArrays_reg_array)
next
  case False
  then show ?thesis
    by (simp add: side_effect_def Let_def ProcessCBBind_frame
          ProcessQueryGet_reg_array DrawArrays_reg_array)
qed

lemma OnEvent_simps:
  "reg_array (OnEvent e s) = reg_array s"
  "guest_memory (OnEvent e s) = guest_memory s"
  "executing_macro (OnEvent e s) = executing_macro s"
  "macro_params (OnEvent e s) = macro_params s"
  "shader_stages (OnEvent e s) = shader_stages s"
  "shader_programs (OnEvent e s) = shader_programs s"
  "uploaded_macros (OnEvent e s) = uploaded_macros s"
  by (simp_all add: OnEvent_def)

lemma WriteReg_tbl_plain:
  assumes "m < MacroRegistersStart"
  shows "WriteReg_tbl H E s m v r =
     (if \<not> unat m < NUM_REGS E then Fail InvalidRegister s
      else if executing_macro s \<noteq> 0 \<and> m \<noteq> executing_macro s + 1
      then Fail MacroArgumentExpected s
      else case side_effect E (stored s m v) m v of
             Fail e t \<Rightarrow> Fail e t
           | Ok s3 \<Rightarrow> Ok (OnEvent MaxwellCommandProcessed s3))"
  using assms by (auto simp: WriteReg_tbl_def stored_def Let_def)

lemma side_effect_none:
  assumes "unat m \<notin> set (side_effect_registers E)"
  shows "side_effect E s m v = Ok s"
proof -
  from assms have a:
    "unat m \<noteq> reg_index E code_address_high" "unat m \<noteq> reg_index E code_address_low"
    "unat m \<noteq> reg_index E draw_vertex_end_gl" "unat m \<noteq> reg_index E query_get"
    by (auto simp: side_effect_registers_def)
  from assms have b:
    "unat m \<notin> set (map (\<lambda>i. reg_index E (const_buffer_cb_data i)) [0..<16])"
    by (auto simp: side_effect_registers_def)
  from assms have "\<forall>i<MaxShaderStage. unat m \<noteq> reg_index E (cb_bind_raw_config i)"
    by (auto simp: side_effect_registers_def)
  then have c:
    "unat m \<noteq> reg_index E (cb_bind_raw_config 0)"
    "unat m \<noteq> reg_index E (cb_bind_raw_config 1)"
    "unat m \<noteq> reg_index E (cb_bind_raw_config 2)"
    "unat m \<noteq> reg_index E (cb_bind_raw_config 3)"
    "unat m \<noteq> reg_index E (cb_bind_raw_config 4)"
    by (simp_all add: MaxShaderStage_def)
  from a b c show ?thesis
    unfolding side_effect_def Let_def by (simp only: if_False simp_thms)
qed

text \<open>
  Claim C6. For a register below the macro range and below the register count, a write that
  returns leaves exactly the written value in that register: no case of the \<^verbatim>\<open>switch\<close>
  overwrites it (the streamed constant-buffer write advances \<^verbatim>\<open>cb_pos\<close>, which is not
  one of the data registers). From an idle macro state the value is there even when a
  side effect stops at its assertion, and the write returns whenever the register has no
  case in the \<^verbatim>\<open>switch\<close>.
\<close>

theorem WriteReg_then_read:
  assumes "wf_layout E" and "m < MacroRegistersStart" and "unat m < NUM_REGS E"
  shows "(WriteReg E s m v r = Ok s' \<longrightarrow> reg_array s' (unat m) = v) \<and>
         (executing_macro s = 0 \<longrightarrow>
            reg_array (state_of (WriteReg E s m v r)) (unat m) = v) \<and>
         (executing_macro s = 0 \<and> unat m \<notin> set (side_effect_registers E) \<longrightarrow>
            is_Ok (WriteReg E s m v r))"
proof -
  note W = WriteReg_tbl_plain [OF assms(2), of method_handlers E s v r, folded WriteReg_def]
  have st: "reg_array (stored s m v) (unat m) = v"
    by (simp add: stored_def)
  note se = side_effect_reg_array [OF assms(1), of "stored s m v" m v]
  show ?thesis
  proof (cases "side_effect E (stored s m v) m v")
    case (Ok t)
    with se st have "reg_array t (unat m) = v" by simp
    with Ok assms(3) show ?thesis
      unfolding W by (auto simp: OnEvent_simps)
  next
    case (Fail e t)
    with se st have "reg_array t (unat m) = v" by simp
    moreover have "unat m \<in> set (side_effect_registers E)"
      using Fail side_effect_none [of m E "stored s m v" v] by auto
    ultimately show ?thesis
      using Fail assms(3) unfolding W by simp
  qed
qed

theorem WriteReg_then_read_witness:
  "wf_layout maxwell_env \<and> (0x100::u32) < MacroRegistersStart \<and>
   is_Ok (WriteReg maxwell_env idle_engine 0x100 7 0) \<and>
   reg_array (state_of (WriteReg maxwell_env idle_engine 0x100 7 0)) 0x100 = 7 \<and>
   is_Ok (WriteReg maxwell_env idle_engine 0x904 0x11 0) \<and>
   reg_array (state_of (WriteReg maxwell_env idle_engine 0x904 0x11 0)) 0x904 = 0x11"
proof -
  have lt: "(0x100::u32) < MacroRegistersStart" "(0x904::u32) < MacroRegistersStart"
    by (simp_all add: MacroRegistersStart_def)
  have nr: "unat (0x100::u32) < NUM_REGS maxwell_env" "unat (0x904::u32) < NUM_REGS maxwell_env"
    by (simp_all add: maxwell_env_def)
  have idle: "executing_macro idle_engine = 0"
    by (simp add: idle_engine_def)
  have nse: "unat (0x100::u32) \<notin> set (side_effect_registers maxwell_env)"
    by (simp add: side_effect_registers_def maxwell_env_def MaxShaderStage_def upt_rec)
  note A = WriteReg_then_read [OF wf_layout_maxwell_env lt(1) nr(1), of idle_engine 7 0
      "state_of (WriteReg maxwell_env idle_engine 0x100 7 0)"]
  note B = WriteReg_then_read [OF wf_layout_maxwell_env lt(2) nr(2), of idle_engine "0x11" 0
      "state_of (WriteReg maxwell_env idle_engine 0x904 0x11 0)"]
  have a1: "is_Ok (WriteReg maxwell_env idle_engine 0x100 7 0)"
    using A [THEN conjunct2, THEN conjunct2] idle nse by simp
  have a2: "reg_array (state_of (WriteReg maxwell_env idle_engine 0x100 7 0)) 0x100 = 7"
    using A [THEN conjunct2, THEN conjunct1] idle by simp
  have b1: "is_Ok (WriteReg maxwell_env idle_engine 0x904 0x11 0)"
    by (simp add: run_defs idle_engine_def ProcessCBBind_def BitField_Value_def Vertex_def)
  then have b0: "WriteReg maxwell_env idle_engine 0x904 0x11 0
      = Ok (state_of (WriteReg maxwell_env idle_engine 0x904 0x11 0))"
    by (cases "WriteReg maxwell_env idle_engine 0x904 0x11 0") simp_all
  have b2: "reg_array (state_of (WriteReg maxwell_env idle_engine 0x904 0x11 0)) 0x904 = 0x11"
    using B [THEN conjunct1] b0 by simp
  from wf_layout_maxwell_env lt(1) a1 a2 b1 b2 show ?thesis by simp
qed

lemma even_word_succ_neq: "(x::u32) mod 2 = 0 \<Longrightarrow> x + 1 \<noteq> x"
  by simp

lemma even_word_succ_less: "(x::u32) mod 2 = 0 \<Longrightarrow> unat x < unat (x + 1)"
proof -
  assume a: "x mod 2 = 0"
  from a have "x \<noteq> - 1" by auto
  then have "x < x + 1" using inc_less_eq_self_iff_eq [of x] by auto
  then show ?thesis by (simp add: word_less_nat_alt)
qed

section \<open>Words, addresses and guest memory\<close>

lemma low_mask: "(0xFFFFFFFF :: u64) = mask 32"
  by (simp add: mask_eq_decr_exp)

lemma join_address_split:
  "join_address (ucast (drop_bit 32 a)) (ucast (a AND 0xFFFFFFFF)) = a"
  unfolding join_address_def low_mask
proof (rule bit_word_eqI)
  fix n assume "n < LENGTH(64)"
  then show "bit (push_bit 32 (ucast (ucast (drop_bit 32 a) :: u32)) OR
      (ucast (ucast (a AND mask 32) :: u32) :: u64)) n = bit a n"
    by (cases "n < 32") (auto simp add: bit_simps)
qed

lemma bytes_join:
  "(ucast (ucast v :: u8) :: u32) OR push_bit 8 (ucast (ucast (drop_bit 8 v) :: u8))
     OR push_bit 16 (ucast (ucast (drop_bit 16 v) :: u8))
     OR push_bit 24 (ucast (ucast (drop_bit 24 v) :: u8)) = (v :: u32)"
proof (rule bit_word_eqI)
  fix n assume n: "n < LENGTH(32)"
  consider "n < 8" | "8 \<le> n \<and> n < 16" | "16 \<le> n \<and> n < 24" | "24 \<le> n \<and> n < 32"
    using n by fastforce
  then show "bit ((ucast (ucast v :: u8) :: u32)
     OR push_bit 8 (ucast (ucast (drop_bit 8 v) :: u8))
     OR push_bit 16 (ucast (ucast (drop_bit 16 v) :: u8))
     OR push_bit 24 (ucast (ucast (drop_bit 24 v) :: u8))) n = bit v n"
    by cases (auto simp add: bit_simps)
qed

lemma Read32_Write32: "Read32 (Write32 m a v) a = v"
  by (simp add: Read32_def Write32_def bytes_join)

section \<open>The constant buffer manager\<close>

lemma ProcessCBData_NotBound:
  "BufferAddress E s = 0 \<Longrightarrow> ProcessCBData E s v = Fail ConstBufferNotBound s"
  by (simp add: ProcessCBData_def)

lemma ProcessCBData_Overflow:
  "BufferAddress E s \<noteq> 0 \<Longrightarrow>
   unat (reg E s const_buffer_cb_size) < unat (reg E s const_buffer_cb_pos) + 4 \<Longrightarrow>
   ProcessCBData E s v = Fail ConstBufferOverflow s"
  by (simp add: ProcessCBData_def Let_def)

lemma ProcessCBData_Ok:
  assumes "BufferAddress E s \<noteq> 0"
    and "unat (reg E s const_buffer_cb_pos) + 4 \<le> unat (reg E s const_buffer_cb_size)"
  shows "ProcessCBData E s v =
      Ok (set_reg E const_buffer_cb_pos (reg E s const_buffer_cb_pos + 4)
           (s\<lparr>guest_memory := Write32 (guest_memory s)
                (PhysicalToVirtualAddress E
                   (BufferAddress E s + ucast (reg E s const_buffer_cb_pos))) v\<rparr>))"
  using assms by (simp add: ProcessCBData_def Let_def reg_def)

lemma cursor_advance:
  assumes "unat (p::u32) + 4 \<le> unat (z::u32)"
  shows "unat (p + 4) = unat p + 4"
proof -
  have "unat z < 2 ^ 32" using unsigned_less [of z] by simp
  with assms have "unat p + unat (4::u32) < 2 ^ LENGTH(32)" by simp
  then have "unat (p + 4) = unat p + unat (4::u32)" by (simp only: unat_add_lem)
  then show ?thesis by simp
qed

lemma ProcessCBData_cursor:
  assumes "ProcessCBData E s v = Ok s'"
  shows "unat (reg E s' const_buffer_cb_pos) = unat (reg E s const_buffer_cb_pos) + 4"
proof -
  from assms have a: "BufferAddress E s \<noteq> 0"
    and b: "unat (reg E s const_buffer_cb_pos) + 4 \<le> unat (reg E s const_buffer_cb_size)"
    by (auto simp: ProcessCBData_def Let_def split: if_splits)
  from assms ProcessCBData_Ok [OF a b, of v]
  have "reg E s' const_buffer_cb_pos = reg E s const_buffer_cb_pos + 4"
    by (auto simp: reg_def)
  with cursor_advance [OF b] show ?thesis by simp
qed

lemma ProcessCBData_seq_cursor:
  "ProcessCBData_seq E s vs = Ok s' \<Longrightarrow>
   unat (reg E s' const_buffer_cb_pos) = unat (reg E s const_buffer_cb_pos) + 4 * length vs"
proof (induction vs arbitrary: s)
  case Nil
  then show ?case by simp
next
  case (Cons v vs)
  from Cons.prems obtain t where t: "ProcessCBData E s v = Ok t"
    and r: "ProcessCBData_seq E t vs = Ok s'"
    by (auto split: outcome.splits)
  from Cons.IH [OF r] ProcessCBData_cursor [OF t] show ?case by simp
qed

lemma const_buffer_regs_distinct:
  assumes "wf_layout E"
  shows "reg_index E const_buffer_cb_pos \<noteq> reg_index E const_buffer_cb_size"
    and "reg_index E const_buffer_cb_pos \<noteq> reg_index E const_buffer_cb_address_high"
    and "reg_index E const_buffer_cb_pos \<noteq> reg_index E const_buffer_cb_address_low"
    and "reg_index E const_buffer_cb_size \<noteq> reg_index E const_buffer_cb_address_high"
    and "reg_index E const_buffer_cb_size \<noteq> reg_index E const_buffer_cb_address_low"
    and "reg_index E const_buffer_cb_address_high \<noteq> reg_index E const_buffer_cb_address_low"
  by (rule reg_index_neq [OF assms]; simp add: all_fields_mem)+

lemma ProcessCBData_keeps_binding:
  assumes "wf_layout E" and "ProcessCBData E s v = Ok s'"
  shows "BufferAddress E s' = BufferAddress E s"
    and "reg E s' const_buffer_cb_size = reg E s const_buffer_cb_size"
proof -
  from assms(2) have a: "BufferAddress E s \<noteq> 0"
    and b: "unat (reg E s const_buffer_cb_pos) + 4 \<le> unat (reg E s const_buffer_cb_size)"
    by (auto simp: ProcessCBData_def Let_def split: if_splits)
  note d = const_buffer_regs_distinct [OF assms(1)]
  from assms(2) ProcessCBData_Ok [OF a b, of v] d
  show "BufferAddress E s' = BufferAddress E s"
    and "reg E s' const_buffer_cb_size = reg E s const_buffer_cb_size"
    by (auto simp: reg_def BufferAddress_def)
qed

text \<open>
  Claim C3. The streamed write stops with \<open>ConstBufferNotBound\<close> when the active buffer
  address is zero, and otherwise with \<open>ConstBufferOverflow\<close> when cursor + 4 exceeds the
  size; the state at either failure is the state before the call, so nothing was written
  and the cursor did not move. Otherwise it returns, guest memory is the old one with the
  four bytes of the value at the translation of address + cursor (reading them back gives
  the value), and the cursor has advanced by exactly 4. A run of writes that all return
  advances the cursor by 4 times their number. With size 4 and cursor 0 the first write
  returns and the next one stops with \<open>ConstBufferOverflow\<close>.
\<close>

theorem ProcessCBData_streamed_write:
  "(BufferAddress E s = 0 \<longrightarrow> ProcessCBData E s v = Fail ConstBufferNotBound s) \<and>
   (BufferAddress E s \<noteq> 0 \<and>
      unat (reg E s const_buffer_cb_size) < unat (reg E s const_buffer_cb_pos) + 4 \<longrightarrow>
      ProcessCBData E s v = Fail ConstBufferOverflow s) \<and>
   (BufferAddress E s \<noteq> 0 \<and>
      unat (reg E s const_buffer_cb_pos) + 4 \<le> unat (reg E s const_buffer_cb_size) \<longrightarrow>
      is_Ok (ProcessCBData E s v) \<and>
      guest_memory (state_of (ProcessCBData E s v)) =
        Write32 (guest_memory s)
          (PhysicalToVirtualAddress E
             (BufferAddress E s + ucast (reg E s const_buffer_cb_pos))) v \<and>
      Read32 (guest_memory (state_of (ProcessCBData E s v)))
          (PhysicalToVirtualAddress E
             (BufferAddress E s + ucast (reg E s const_buffer_cb_pos))) = v \<and>
      unat (reg E (state_of (ProcessCBData E s v)) const_buffer_cb_pos) =
        unat (reg E s const_buffer_cb_pos) + 4) \<and>
   (ProcessCBData_seq E s vs = Ok s' \<longrightarrow>
      unat (reg E s' const_buffer_cb_pos) =
        unat (reg E s const_buffer_cb_pos) + 4 * length vs) \<and>
   (wf_layout E \<and> BufferAddress E s \<noteq> 0 \<and> reg E s const_buffer_cb_size = 4 \<and>
      reg E s const_buffer_cb_pos = 0 \<longrightarrow>
      is_Ok (ProcessCBData E s v) \<and>
      ProcessCBData E (state_of (ProcessCBData E s v)) w =
        Fail ConstBufferOverflow (state_of (ProcessCBData E s v)))"
proof (intro conjI impI)
  assume "BufferAddress E s = 0"
  then show "ProcessCBData E s v = Fail ConstBufferNotBound s"
    by (rule ProcessCBData_NotBound)
next
  assume "BufferAddress E s \<noteq> 0 \<and>
      unat (reg E s const_buffer_cb_size) < unat (reg E s const_buffer_cb_pos) + 4"
  then show "ProcessCBData E s v = Fail ConstBufferOverflow s"
    by (simp add: ProcessCBData_Overflow)
next
  assume a: "BufferAddress E s \<noteq> 0 \<and>
      unat (reg E s const_buffer_cb_pos) + 4 \<le> unat (reg E s const_buffer_cb_size)"
  then have ok: "ProcessCBData E s v =
      Ok (set_reg E const_buffer_cb_pos (reg E s const_buffer_cb_pos + 4)
           (s\<lparr>guest_memory := Write32 (guest_memory s)
                (PhysicalToVirtualAddress E
                   (BufferAddress E s + ucast (reg E s const_buffer_cb_pos))) v\<rparr>))"
    by (simp add: ProcessCBData_Ok)
  show "is_Ok (ProcessCBData E s v)" by (simp add: ok)
  show "guest_memory (state_of (ProcessCBData E s v)) =
        Write32 (guest_memory s)
          (PhysicalToVirtualAddress E
             (BufferAddress E s + ucast (reg E s const_buffer_cb_pos))) v"
    by (simp add: ok)
  show "Read32 (guest_memory (state_of (ProcessCBData E s v)))
          (PhysicalToVirtualAddress E
             (BufferAddress E s + ucast (reg E s const_buffer_cb_pos))) = v"
    by (simp add: ok Read32_Write32)
  show "unat (reg E (state_of (ProcessCBData E s v)) const_buffer_cb_pos) =
        unat (reg E s const_buffer_cb_pos) + 4"
    using ProcessCBData_cursor [of E s v] by (simp add: ok)
next
  assume "ProcessCBData_seq E s vs = Ok s'"
  then show "unat (reg E s' const_buffer_cb_pos) =
        unat (reg E s const_buffer_cb_pos) + 4 * length vs"
    by (rule ProcessCBData_seq_cursor)
next
  assume a: "wf_layout E \<and> BufferAddress E s \<noteq> 0 \<and> reg E s const_buffer_cb_size = 4 \<and>
      reg E s const_buffer_cb_pos = 0"
  then have "ProcessCBData E s v = Ok (state_of (ProcessCBData E s v))"
    by (simp add: ProcessCBData_Ok)
  then show "is_Ok (ProcessCBData E s v)"
    by (cases "ProcessCBData E s v") simp_all
next
  assume a: "wf_layout E \<and> BufferAddress E s \<noteq> 0 \<and> reg E s const_buffer_cb_size = 4 \<and>
      reg E s const_buffer_cb_pos = 0"
  let ?t = "state_of (ProcessCBData E s v)"
  from a have ok: "ProcessCBData E s v = Ok ?t"
    by (simp add: ProcessCBData_Ok)
  from a have wf: "wf_layout E" by simp
  from ProcessCBData_keeps_binding [OF wf ok] a
  have b: "BufferAddress E ?t \<noteq> 0" and z: "reg E ?t const_buffer_cb_size = 4" by simp_all
  from ProcessCBData_cursor [OF ok] a
  have c: "unat (reg E ?t const_buffer_cb_pos) = 4" by simp
  from b z c show "ProcessCBData E ?t w = Fail ConstBufferOverflow ?t"
    by (simp add: ProcessCBData_Overflow)
qed

lemmas reg_eval =
  reg_def BufferAddress_def QueryAddress_def join_address_def maxwell_env_def
  bound_engine_def full_engine_def roomy_engine_def sync_query_engine_def idle_engine_def

lemma bound_engine_regs:
  "BufferAddress maxwell_env bound_engine = 0x5000"
  "reg maxwell_env bound_engine const_buffer_cb_size = 4"
  "reg maxwell_env bound_engine const_buffer_cb_pos = 0"
  "BufferAddress maxwell_env idle_engine = 0"
  "BufferAddress maxwell_env full_engine = 0x5000"
  "reg maxwell_env full_engine const_buffer_cb_size = 4"
  "reg maxwell_env full_engine const_buffer_cb_pos = 4"
  "BufferAddress maxwell_env roomy_engine = 0x5000"
  "reg maxwell_env roomy_engine const_buffer_cb_size = 0x10"
  "reg maxwell_env roomy_engine const_buffer_cb_pos = 0"
  "PhysicalToVirtualAddress maxwell_env a = a + 0x1000"
  by (simp_all add: reg_eval)

lemma roomy_seq_Ok: "is_Ok (ProcessCBData_seq maxwell_env roomy_engine [1, 2, 3])"
  by (simp add: ProcessCBData_def Let_def set_reg_def reg_eval)

theorem ProcessCBData_streamed_write_witness:
  "ProcessCBData maxwell_env idle_engine 5 = Fail ConstBufferNotBound idle_engine \<and>
   ProcessCBData maxwell_env full_engine 5 = Fail ConstBufferOverflow full_engine \<and>
   is_Ok (ProcessCBData maxwell_env bound_engine 5) \<and>
   Read32 (guest_memory (state_of (ProcessCBData maxwell_env bound_engine 5))) 0x6000 = 5 \<and>
   unat (reg maxwell_env (state_of (ProcessCBData maxwell_env bound_engine 5))
           const_buffer_cb_pos) = 4 \<and>
   ProcessCBData maxwell_env (state_of (ProcessCBData maxwell_env bound_engine 5)) 6
     = Fail ConstBufferOverflow (state_of (ProcessCBData maxwell_env bound_engine 5)) \<and>
   unat (reg maxwell_env (state_of (ProcessCBData_seq maxwell_env roomy_engine [1, 2, 3]))
           const_buffer_cb_pos) = 12"
proof -
  note T = ProcessCBData_streamed_write
  have a: "ProcessCBData maxwell_env idle_engine 5 = Fail ConstBufferNotBound idle_engine"
    using T [where E = maxwell_env and s = idle_engine and v = 5, THEN conjunct1]
    by (simp add: bound_engine_regs)
  have b: "ProcessCBData maxwell_env full_engine 5 = Fail ConstBufferOverflow full_engine"
    using T [where E = maxwell_env and s = full_engine and v = 5,
        THEN conjunct2, THEN conjunct1]
    by (simp add: bound_engine_regs)
  have c: "is_Ok (ProcessCBData maxwell_env bound_engine 5) \<and>
      Read32 (guest_memory (state_of (ProcessCBData maxwell_env bound_engine 5))) 0x6000 = 5 \<and>
      unat (reg maxwell_env (state_of (ProcessCBData maxwell_env bound_engine 5))
           const_buffer_cb_pos) = 4"
    using T [where E = maxwell_env and s = bound_engine and v = 5,
        THEN conjunct2, THEN conjunct2, THEN conjunct1]
    by (simp add: bound_engine_regs Read32_Write32)
  have d: "ProcessCBData maxwell_env (state_of (ProcessCBData maxwell_env bound_engine 5)) 6
     = Fail ConstBufferOverflow (state_of (ProcessCBData maxwell_env bound_engine 5))"
    using T [where E = maxwell_env and s = bound_engine and v = 5 and w = 6,
        THEN conjunct2, THEN conjunct2, THEN conjunct2, THEN conjunct2]
      wf_layout_maxwell_env
    by (simp add: bound_engine_regs)
  define r where "r = state_of (ProcessCBData_seq maxwell_env roomy_engine [1, 2, 3])"
  have r: "ProcessCBData_seq maxwell_env roomy_engine [1, 2, 3] = Ok r"
    using roomy_seq_Ok unfolding r_def
    by (cases "ProcessCBData_seq maxwell_env roomy_engine [1, 2, 3]") simp_all
  have e: "unat (reg maxwell_env r const_buffer_cb_pos) = 12"
    using T [where E = maxwell_env and s = roomy_engine and vs = "[1, 2, 3]" and s' = r,
        THEN conjunct2, THEN conjunct2, THEN conjunct2, THEN conjunct1] r
    by (simp add: bound_engine_regs)
  from a b c d e show ?thesis unfolding r_def by simp
qed

section \<open>The query processor\<close>

lemma side_effect_query_get:
  assumes wf: "wf_layout E" and m: "unat m = reg_index E query_get"
  shows "side_effect E s m v = ProcessQueryGet E s"
proof -
  have q: "query_get \<in> set (all_fields E)" by (simp add: all_fields_def)
  have n1: "reg_index E query_get \<noteq> reg_index E code_address_high"
    "reg_index E query_get \<noteq> reg_index E code_address_low"
    "reg_index E query_get \<noteq> reg_index E draw_vertex_end_gl"
    by (rule reg_index_neq [OF wf q]; simp add: all_fields_def)+
  have n2: "reg_index E query_get \<noteq> reg_index E (const_buffer_cb_data i)" if "i < 16" for i
    using that by (intro reg_index_neq [OF wf q]) (simp_all add: all_fields_mem)
  have n3: "reg_index E query_get \<noteq> reg_index E (cb_bind_raw_config i)"
    if "i < MaxShaderStage" for i
    using that by (intro reg_index_neq [OF wf q]) (simp_all add: all_fields_mem)
  have n2': "reg_index E query_get
      \<notin> set (map (\<lambda>i. reg_index E (const_buffer_cb_data i)) [0..<16])"
  proof
    assume "reg_index E query_get
        \<in> set (map (\<lambda>i. reg_index E (const_buffer_cb_data i)) [0..<16])"
    then obtain i where "i < 16" "reg_index E query_get = reg_index E (const_buffer_cb_data i)"
      by auto
    with n2 [of i] show False by simp
  qed
  from n1 n2' n3 [of 0] n3 [of 1] n3 [of 2] n3 [of 3] n3 [of 4] show ?thesis
    unfolding side_effect_def Let_def m by (simp add: MaxShaderStage_def)
qed

text \<open>
  Claim C7. The query processor joins the address fields of the query register and
  translates the result. When the mode field of \<^verbatim>\<open>query_get\<close> is \<^verbatim>\<open>Write\<close> it returns
  with the 32-bit query sequence number written at that address, and nothing else changed.
  For every other mode it stops with \<open>UnimplementedQueryMode\<close>, the state being the one
  before the call: nothing is written. A write to the \<^verbatim>\<open>query_get\<close> register (idle macro
  state) stores the value and triggers exactly this.
\<close>

theorem ProcessQueryGet_modes:
  "(BitField_Value (query_get_mode E) (reg E s query_get) = QueryMode_Write E \<longrightarrow>
      ProcessQueryGet E s =
        Ok (s\<lparr>guest_memory := Write32 (guest_memory s)
               (PhysicalToVirtualAddress E (QueryAddress E s)) (reg E s query_sequence)\<rparr>) \<and>
      Read32 (guest_memory (state_of (ProcessQueryGet E s)))
        (PhysicalToVirtualAddress E (QueryAddress E s)) = reg E s query_sequence) \<and>
   (BitField_Value (query_get_mode E) (reg E s query_get) \<noteq> QueryMode_Write E \<longrightarrow>
      ProcessQueryGet E s = Fail UnimplementedQueryMode s) \<and>
   (wf_layout E \<and> unat m = reg_index E query_get \<and> m < MacroRegistersStart \<and>
      unat m < NUM_REGS E \<and> executing_macro s = 0 \<longrightarrow>
      WriteReg E s m v r =
        (case ProcessQueryGet E (stored s m v) of
           Fail e t \<Rightarrow> Fail e t
         | Ok t \<Rightarrow> Ok (OnEvent MaxwellCommandProcessed t)))"
proof (intro conjI impI)
  assume a: "BitField_Value (query_get_mode E) (reg E s query_get) = QueryMode_Write E"
  then show ok: "ProcessQueryGet E s =
        Ok (s\<lparr>guest_memory := Write32 (guest_memory s)
               (PhysicalToVirtualAddress E (QueryAddress E s)) (reg E s query_sequence)\<rparr>)"
    by (simp add: ProcessQueryGet_def Let_def)
  show "Read32 (guest_memory (state_of (ProcessQueryGet E s)))
        (PhysicalToVirtualAddress E (QueryAddress E s)) = reg E s query_sequence"
    by (simp add: ok Read32_Write32)
next
  assume "BitField_Value (query_get_mode E) (reg E s query_get) \<noteq> QueryMode_Write E"
  then show "ProcessQueryGet E s = Fail UnimplementedQueryMode s"
    by (simp add: ProcessQueryGet_def Let_def)
next
  assume a: "wf_layout E \<and> unat m = reg_index E query_get \<and> m < MacroRegistersStart \<and>
      unat m < NUM_REGS E \<and> executing_macro s = 0"
  then have "side_effect E (stored s m v) m v = ProcessQueryGet E (stored s m v)"
    by (simp add: side_effect_query_get)
  with a show "WriteReg E s m v r =
        (case ProcessQueryGet E (stored s m v) of
           Fail e t \<Rightarrow> Fail e t
         | Ok t \<Rightarrow> Ok (OnEvent MaxwellCommandProcessed t))"
    by (simp add: WriteReg_def WriteReg_tbl_plain)
qed

theorem ProcessQueryGet_modes_witness:
  "Read32 (guest_memory (state_of (ProcessQueryGet maxwell_env bound_engine))) 0x8000 = 0xABCD \<and>
   is_Ok (ProcessQueryGet maxwell_env bound_engine) \<and>
   ProcessQueryGet maxwell_env sync_query_engine
     = Fail UnimplementedQueryMode sync_query_engine \<and>
   WriteReg maxwell_env bound_engine 0x6C3 1 0
     = Fail UnimplementedQueryMode (stored bound_engine 0x6C3 1)"
proof -
  note T = ProcessQueryGet_modes
  have m0: "BitField_Value (query_get_mode maxwell_env) (reg maxwell_env bound_engine query_get)
      = QueryMode_Write maxwell_env"
    by (simp add: reg_eval BitField_Value_def)
  have m1: "BitField_Value (query_get_mode maxwell_env)
      (reg maxwell_env sync_query_engine query_get) \<noteq> QueryMode_Write maxwell_env"
    by (simp add: reg_eval BitField_Value_def)
  have qa: "PhysicalToVirtualAddress maxwell_env (QueryAddress maxwell_env bound_engine) = 0x8000"
    "reg maxwell_env bound_engine query_sequence = 0xABCD"
    by (simp_all add: reg_eval)
  have a: "is_Ok (ProcessQueryGet maxwell_env bound_engine) \<and>
      Read32 (guest_memory (state_of (ProcessQueryGet maxwell_env bound_engine))) 0x8000 = 0xABCD"
    using T [where E = maxwell_env and s = bound_engine, THEN conjunct1] m0
    by (simp add: qa Read32_Write32)
  have b: "ProcessQueryGet maxwell_env sync_query_engine
     = Fail UnimplementedQueryMode sync_query_engine"
    using T [where E = maxwell_env and s = sync_query_engine, THEN conjunct2, THEN conjunct1] m1
    by simp
  have m2: "BitField_Value (query_get_mode maxwell_env)
      (reg maxwell_env (stored bound_engine 0x6C3 1) query_get) \<noteq> QueryMode_Write maxwell_env"
    by (simp add: reg_eval BitField_Value_def stored_def OnEvent_def)
  have c0: "ProcessQueryGet maxwell_env (stored bound_engine 0x6C3 1)
     = Fail UnimplementedQueryMode (stored bound_engine 0x6C3 1)"
    using T [where E = maxwell_env and s = "stored bound_engine 0x6C3 1",
        THEN conjunct2, THEN conjunct1] m2
    by simp
  have c: "WriteReg maxwell_env bound_engine 0x6C3 1 0
     = Fail UnimplementedQueryMode (stored bound_engine 0x6C3 1)"
    using T [where E = maxwell_env and s = bound_engine and m = "0x6C3" and v = 1 and r = 0,
        THEN conjunct2, THEN conjunct2] wf_layout_maxwell_env c0
    by (simp add: maxwell_env_def MacroRegistersStart_def bound_engine_def idle_engine_def)
  from a b c show ?thesis by simp
qed

section \<open>The macro handlers\<close>

lemma bit_BitField_Value:
  "bit (BitField_Value f w) n \<longleftrightarrow> n < snd f \<and> bit w (fst f + n)"
  by (auto simp add: BitField_Value_def bit_simps ac_simps)

lemma bit_BitField_Assign:
  "bit (BitField_Assign f w v) n \<longleftrightarrow>
     n < 32 \<and> (if fst f \<le> n \<and> n < fst f + snd f then bit v (n - fst f) else bit w n)"
  by (auto simp add: BitField_Assign_def bit_simps dest: bit_imp_le_length)

lemma Value_Assign_same:
  assumes "fst f + snd f \<le> 32"
  shows "BitField_Value f (BitField_Assign f w v) = take_bit (snd f) v"
proof (rule bit_word_eqI)
  fix n assume "n < LENGTH(32)"
  with assms show "bit (BitField_Value f (BitField_Assign f w v)) n
      = bit (take_bit (snd f) v) n"
    by (auto simp add: bit_BitField_Value bit_BitField_Assign bit_simps)
qed

lemma Value_Assign_other:
  assumes "fst f + snd f \<le> fst g \<or> fst g + snd g \<le> fst f"
  shows "BitField_Value f (BitField_Assign g w v) = BitField_Value f w"
proof (rule bit_word_eqI)
  fix n assume "n < LENGTH(32)"
  with assms show "bit (BitField_Value f (BitField_Assign g w v)) n
      = bit (BitField_Value f w) n"
    by (auto simp add: bit_BitField_Value bit_BitField_Assign dest: bit_imp_le_length)
qed

lemma take_bit_one: "0 < b \<Longrightarrow> take_bit b (1::u32) = 1"
  by (cases b) simp_all

lemma cb_bind_fields:
  assumes "wf_layout E"
  shows "BitField_Value (cb_bind_index E)
           (BitField_Assign (cb_bind_index E) (BitField_Assign (cb_bind_valid E) w 1) 1) = 1"
    and "BitField_Value (cb_bind_valid E)
           (BitField_Assign (cb_bind_index E) (BitField_Assign (cb_bind_valid E) w 1) 1) = 1"
proof -
  from assms have v: "fst (cb_bind_valid E) = 0" "0 < snd (cb_bind_valid E)"
      "snd (cb_bind_valid E) \<le> 4"
    and i: "fst (cb_bind_index E) = 4" "0 < snd (cb_bind_index E)"
      "snd (cb_bind_index E) \<le> 28"
    by (simp_all add: wf_layout_def)
  from i show "BitField_Value (cb_bind_index E)
           (BitField_Assign (cb_bind_index E) (BitField_Assign (cb_bind_valid E) w 1) 1) = 1"
    by (simp add: Value_Assign_same take_bit_one)
  from v i have "BitField_Value (cb_bind_valid E)
           (BitField_Assign (cb_bind_index E) (BitField_Assign (cb_bind_valid E) w 1) 1)
      = BitField_Value (cb_bind_valid E) (BitField_Assign (cb_bind_valid E) w 1)"
    by (simp add: Value_Assign_other)
  also from v have "\<dots> = 1"
    by (simp add: Value_Assign_same take_bit_one)
  finally show "BitField_Value (cb_bind_valid E)
           (BitField_Assign (cb_bind_index E) (BitField_Assign (cb_bind_valid E) w 1) 1) = 1" .
qed

lemma tex_info_regs_distinct:
  assumes "wf_layout E" and "i < MaxShaderStage"
  shows "reg_index E (tex_info_buffers_size i) \<noteq> reg_index E const_buffer_cb_size"
    and "reg_index E (tex_info_buffers_size i) \<noteq> reg_index E const_buffer_cb_address_high"
    and "reg_index E (tex_info_buffers_size i) \<noteq> reg_index E const_buffer_cb_address_low"
    and "reg_index E (tex_info_buffers_address i) \<noteq> reg_index E const_buffer_cb_size"
    and "reg_index E (tex_info_buffers_address i) \<noteq> reg_index E const_buffer_cb_address_high"
    and "reg_index E (tex_info_buffers_address i) \<noteq> reg_index E const_buffer_cb_address_low"
  using assms(2) by (intro reg_index_neq [OF assms(1)]; simp add: all_fields_mem)+

text \<open>
  Claim C9, as amended. For a valid stage, \<^verbatim>\<open>BindTextureInfoBuffer\<close> returns; afterwards the
  active constant-buffer size register holds the stage's texture-info-buffer size
  register, and the active constant-buffer address is the stage's texture-info-buffer
  address register shifted left by 8 bits, as a 64-bit address. The two registers read are
  not changed.
\<close>

theorem BindTextureInfoBuffer_config:
  assumes "wf_layout E" and "unat stage < MaxShaderStage"
  shows "is_Ok (BindTextureInfoBuffer E s [stage]) \<and>
         reg E (state_of (BindTextureInfoBuffer E s [stage])) const_buffer_cb_size
           = reg E s (tex_info_buffers_size (unat stage)) \<and>
         BufferAddress E (state_of (BindTextureInfoBuffer E s [stage]))
           = push_bit 8 (ucast (reg E s (tex_info_buffers_address (unat stage)))) \<and>
         reg E (state_of (BindTextureInfoBuffer E s [stage]))
             (tex_info_buffers_size (unat stage))
           = reg E s (tex_info_buffers_size (unat stage)) \<and>
         reg E (state_of (BindTextureInfoBuffer E s [stage]))
             (tex_info_buffers_address (unat stage))
           = reg E s (tex_info_buffers_address (unat stage))"
proof -
  note d = const_buffer_regs_distinct [OF assms(1)] tex_info_regs_distinct [OF assms]
  let ?a = "push_bit 8 (ucast (reg_array s (reg_index E (tex_info_buffers_address (unat stage))))
              :: GPUVAddr)"
  have j: "join_address (ucast (drop_bit 32 ?a)) (ucast (?a AND 0xFFFFFFFF)) = ?a"
    by (rule join_address_split)
  from assms(2) d j show ?thesis
    by (simp add: BindTextureInfoBuffer_def Let_def reg_def BufferAddress_def)
qed

theorem BindTextureInfoBuffer_config_witness:
  "wf_layout maxwell_env \<and> unat (4::u32) < MaxShaderStage \<and>
   is_Ok (BindTextureInfoBuffer maxwell_env tex_info_engine [4]) \<and>
   reg maxwell_env (state_of (BindTextureInfoBuffer maxwell_env tex_info_engine [4]))
     const_buffer_cb_size = 0x100 \<and>
   BufferAddress maxwell_env (state_of (BindTextureInfoBuffer maxwell_env tex_info_engine [4]))
     = 0x100"
proof -
  have h: "unat (4::u32) < MaxShaderStage" by (simp add: MaxShaderStage_def)
  have r: "reg maxwell_env tex_info_engine (tex_info_buffers_size 4) = 0x100"
    "reg maxwell_env tex_info_engine (tex_info_buffers_address 4) = 1"
    by (simp_all add: reg_def maxwell_env_def tex_info_engine_def)
  from BindTextureInfoBuffer_config [OF wf_layout_maxwell_env h, of tex_info_engine]
    wf_layout_maxwell_env h
  show ?thesis by (simp add: r)
qed

text \<open>
  Claim C9 as stated fails: with 1 in the fragment stage's texture-info-buffer address
  register, the active constant-buffer address after the call is \<^verbatim>\<open>0x100\<close>, not 1.
\<close>

theorem BindTextureInfoBuffer_config_counterexample:
  "unat (4::u32) < MaxShaderStage \<and>
   is_Ok (BindTextureInfoBuffer maxwell_env tex_info_engine [4]) \<and>
   reg maxwell_env tex_info_engine (tex_info_buffers_address 4) = 1 \<and>
   BufferAddress maxwell_env (state_of (BindTextureInfoBuffer maxwell_env tex_info_engine [4]))
     = 0x100"
  by (simp add: BindTextureInfoBuffer_def MaxShaderStage_def Let_def reg_def set_reg_def
        BufferAddress_def join_address_def maxwell_env_def tex_info_engine_def)

lemma SetShader_regs_distinct:
  assumes "wf_layout E" and "i < MaxShaderStage"
  shows "reg_index E (cb_bind_raw_config i) \<noteq> reg_index E const_buffer_cb_size"
    and "reg_index E (cb_bind_raw_config i) \<noteq> reg_index E const_buffer_cb_address_high"
    and "reg_index E (cb_bind_raw_config i) \<noteq> reg_index E const_buffer_cb_address_low"
  using assms(2) by (intro reg_index_neq [OF assms(1)]; simp add: all_fields_mem)+

lemma SetShader_effect:
  assumes wf: "wf_layout E" and p: "unat p < MaxShaderProgram E"
    and st: "unat stage < MaxShaderStage" and mc: "1 < MaxConstBuffers E"
  shows "is_Ok (SetShader E s [p, x, off, stage, h]) \<and>
         shader_programs (state_of (SetShader E s [p, x, off, stage, h])) (unat p)
           = \<lparr>sp_program = p, sp_stage = stage, sp_address = ucast off\<rparr> \<and>
         shader_stages (state_of (SetShader E s [p, x, off, stage, h])) (unat stage) 1
           = \<lparr>cbi_address = ucast (push_bit 8 h :: u32), cbi_index = 1,
              cbi_size = 0x10000, cbi_enabled = True\<rparr>"
proof -
  note d = const_buffer_regs_distinct [OF wf] SetShader_regs_distinct [OF wf st]
  let ?a = "ucast (push_bit 8 h :: u32) :: GPUVAddr"
  have j: "join_address (ucast (drop_bit 32 ?a)) (ucast (?a AND 0xFFFFFFFF)) = ?a"
    by (rule join_address_split)
  note f = cb_bind_fields [OF wf]
  from p st mc d j f show ?thesis
    by (simp add: SetShader_def Let_def reg_def BufferAddress_def ProcessCBBind_def
          DefaultCBSize_SetShader_def)
qed

text \<open>
  Claim C2, at the input where the code departs from it. \<^verbatim>\<open>SetShader\<close> shifts its fifth
  parameter as a 32-bit value before widening it, so with \<^verbatim>\<open>0x1000000\<close> the bind slot of
  the fragment stage at index 1 is enabled with size \<^verbatim>\<open>0x10000\<close> but address 0, whereas
  the parameter shifted left by 8 as an address is \<^verbatim>\<open>0x100000000\<close>.
\<close>

theorem SetShader_truncates_address:
  "is_Ok (SetShader maxwell_env idle_engine [0, 0, 0, 4, 0x1000000]) \<and>
   shader_stages (state_of (SetShader maxwell_env idle_engine [0, 0, 0, 4, 0x1000000])) 4 1
     = \<lparr>cbi_address = 0, cbi_index = 1, cbi_size = 0x10000, cbi_enabled = True\<rparr> \<and>
   push_bit 8 (ucast (0x1000000::u32) :: GPUVAddr) = 0x100000000"
proof -
  have h: "unat (0::u32) < MaxShaderProgram maxwell_env" "unat (4::u32) < MaxShaderStage"
    "1 < MaxConstBuffers maxwell_env"
    by (simp_all add: maxwell_env_def MaxShaderStage_def)
  from SetShader_effect [OF wf_layout_maxwell_env h, of idle_engine 0 0 "0x1000000"]
  show ?thesis by simp
qed

section \<open>The texture descriptor resolver\<close>

lemma unat_plus_of_nat:
  assumes "unat (b::u64) + m < 2 ^ 64"
  shows "unat (b + of_nat m) = unat b + m"
proof -
  from assms have m: "m < 2 ^ LENGTH(64)" by simp
  then have u: "unat (of_nat m :: u64) = m" by (intro of_nat_inverse [OF refl])
  from assms have "unat b + unat (of_nat m :: u64) < 2 ^ LENGTH(64)" unfolding u by simp
  then have "unat (b + of_nat m) = unat b + unat (of_nat m :: u64)"
    by (rule unat_add_lem [THEN iffD1])
  then show ?thesis unfolding u .
qed

lemma handle_address_Suc:
  "handle_address base (Suc k) = handle_address base k + of_nat sizeof_TextureHandle"
  by (simp add: handle_address_def sizeof_TextureHandle_def)

lemma handle_address_0: "handle_address base 0 = base + TextureInfoOffset"
  by (simp add: handle_address_def TextureInfoOffset_def)

lemma unat_handle_address:
  assumes "unat base + 0x20 + 4 * k < 2 ^ 64"
  shows "unat (handle_address base k) = unat base + 0x20 + 4 * k"
proof -
  have e: "handle_address base k = base + of_nat (0x20 + 4 * k)"
    by (simp add: handle_address_def)
  from assms have "unat base + (0x20 + 4 * k) < 2 ^ 64" by simp
  then have "unat (base + of_nat (0x20 + 4 * k)) = unat base + (0x20 + 4 * k)"
    by (rule unat_plus_of_nat)
  then show ?thesis unfolding e by (simp only: add.assoc)
qed

lemma unat_buffer_end:
  assumes "unat (base::u64) + unat (sz::u32) < 2 ^ 64"
  shows "unat (base + ucast sz) = unat base + unat sz"
proof -
  have e: "(ucast sz :: u64) = of_nat (unat sz)" by simp
  show ?thesis unfolding e using assms by (rule unat_plus_of_nat)
qed

lemma handle_count_less: "k < handle_count sz \<longleftrightarrow> 0x20 + 4 * k < unat sz"
  unfolding handle_count_def by arith

lemma handle_in_buffer:
  assumes nw: "unat base + unat sz + 0x23 < 2 ^ 64" and k: "k \<le> handle_count sz"
  shows "handle_address base k < base + ucast sz \<longleftrightarrow> k < handle_count sz"
proof -
  from k have "4 * k \<le> unat sz + 3" unfolding handle_count_def by arith
  with nw have a: "unat base + 0x20 + 4 * k < 2 ^ 64" by simp
  from nw have b: "unat base + unat sz < 2 ^ 64" by simp
  have "handle_address base k < base + ucast sz
      \<longleftrightarrow> unat base + 0x20 + 4 * k < unat base + unat sz"
    by (simp only: word_less_nat_alt unat_handle_address [OF a] unat_buffer_end [OF b])
  also have "\<dots> \<longleftrightarrow> 0x20 + 4 * k < unat sz" by arith
  finally show ?thesis by (simp only: handle_count_less)
qed

lemma handle_index:
  assumes "4 * k < 2 ^ 32"
  shows "(ucast ((handle_address base k - base - TextureInfoOffset)
            div of_nat sizeof_TextureHandle) :: u32) = of_nat k"
proof -
  from assms have k4: "4 * k < (2::nat) ^ LENGTH(64)" and k1: "k < (2::nat) ^ LENGTH(64)"
    by simp_all
  have d: "handle_address base k - base - TextureInfoOffset = of_nat (4 * k)"
    by (simp add: handle_address_def TextureInfoOffset_def)
  have u4: "unat (of_nat (4 * k) :: u64) = 4 * k"
    using k4 by (intro of_nat_inverse [OF refl])
  have "unat ((of_nat (4 * k) :: u64) div of_nat 4)
      = unat (of_nat (4 * k) :: u64) div unat (of_nat 4 :: u64)"
    by (rule unat_div)
  also have "\<dots> = k" unfolding u4 by simp
  finally have q: "unat ((of_nat (4 * k) :: u64) div of_nat 4) = k" .
  have "(ucast ((of_nat (4 * k) :: u64) div of_nat 4) :: u32)
      = of_nat (unat ((of_nat (4 * k) :: u64) div of_nat 4))"
    by (simp only: of_nat_unat)
  also have "\<dots> = of_nat k" unfolding q ..
  finally show ?thesis unfolding d sizeof_TextureHandle_def .
qed

lemma handle_count_small: "k < handle_count sz \<Longrightarrow> 4 * k < 2 ^ 32"
proof -
  assume "k < handle_count sz"
  then have "0x20 + 4 * k < unat sz" by (simp only: handle_count_less)
  moreover have "unat sz < 2 ^ 32" using unsigned_less [of sz] by simp
  ultimately show ?thesis by simp
qed

lemma GetTICEntry_eq:
  "GetTICEntry E s i =
     (if supported_tic E (tic_block E s i) then Inr (tic_block E s i)
      else Inl UnsupportedTextureFormat)"
  by (auto simp: GetTICEntry_def supported_tic_def tic_block_def Let_def)

lemma texture_at_handle:
  assumes "k < handle_count sz"
  shows "texture_at E s base (handle_address base k) =
     (if has_texture E s base k
      then (case GetTICEntry E s (BitField_Value (handle_tic_id E) (texture_handle E s base k)) of
              Inl e \<Rightarrow> Inl e
            | Inr tic \<Rightarrow> Inr (resolved_texture E s base k))
      else Inr \<lparr>ti_index = of_nat k, ti_tic = replicate (sizeof_TICEntry E) 0,
                 ti_tsc = (if BitField_Value (handle_tsc_id E) (texture_handle E s base k) \<noteq> 0
                           then GetTSCEntry E s
                                  (BitField_Value (handle_tsc_id E) (texture_handle E s base k))
                           else replicate (sizeof_TSCEntry E) 0),
                 ti_enabled = False\<rparr>)"
  using handle_index [OF handle_count_small [OF assms], of base]
  by (simp add: texture_at_def has_texture_def resolved_texture_def texture_handle_def Let_def
        split: sum.splits)

lemma resolved_texture_enabled: "ti_enabled (resolved_texture E s base k)"
  by (simp add: resolved_texture_def Let_def)

lemma texture_at_enabled:
  assumes "k < handle_count sz"
    and "texture_at E s base (handle_address base k) = Inr ti"
  shows "(if ti_enabled ti then acc @ [ti] else acc) =
         acc @ map (resolved_texture E s base) (filter (has_texture E s base) [k])"
  using assms(2) unfolding texture_at_handle [OF assms(1)]
  by (auto simp: resolved_texture_enabled split: if_splits sum.splits)

lemma texture_at_Inl:
  assumes "k < handle_count sz"
    and "texture_at E s base (handle_address base k) = Inl e"
  shows "e = UnsupportedTextureFormat \<and> has_texture E s base k \<and>
     \<not> supported_tic E (tic_block E s
          (BitField_Value (handle_tic_id E) (texture_handle E s base k)))"
  using assms(2) unfolding texture_at_handle [OF assms(1)] GetTICEntry_eq
  by (auto split: if_splits)

lemma texture_loop_scan:
  assumes nw: "unat base + unat sz + 0x23 < 2 ^ 64"
  shows "k \<le> handle_count sz \<Longrightarrow>
     (\<forall>j. k \<le> j \<and> j < handle_count sz \<longrightarrow>
          \<not> isl (texture_at E s base (handle_address base j))) \<Longrightarrow>
     texture_loop E s base (base + ucast sz) (handle_address base k) acc =
       Some (Inr (acc @ map (resolved_texture E s base)
                          (filter (has_texture E s base) [k..<handle_count sz])))"
proof (induction "handle_count sz - k" arbitrary: k acc)
  case 0
  then have "k = handle_count sz" by simp
  with handle_in_buffer [OF nw, of k] show ?case
    by (subst texture_loop.simps) simp
next
  case (Suc d)
  then have lt: "k < handle_count sz" and le: "Suc k \<le> handle_count sz"
    and d: "d = handle_count sz - Suc k" by simp_all
  from handle_in_buffer [OF nw, of k] lt
  have c: "handle_address base k < base + ucast sz" by simp
  from Suc.prems(2) lt obtain ti
    where ti: "texture_at E s base (handle_address base k) = Inr ti"
    by (cases "texture_at E s base (handle_address base k)") auto
  from Suc.prems(2)
  have rest: "\<forall>j. Suc k \<le> j \<and> j < handle_count sz \<longrightarrow>
      \<not> isl (texture_at E s base (handle_address base j))" by simp
  note IH = Suc.hyps(1) [OF d le rest]
  have u: "[k..<handle_count sz] = k # [Suc k..<handle_count sz]"
    using lt by (rule upt_conv_Cons)
  have "texture_loop E s base (base + ucast sz) (handle_address base k) acc =
      texture_loop E s base (base + ucast sz) (handle_address base (Suc k))
        (if ti_enabled ti then acc @ [ti] else acc)"
    using c ti by (subst texture_loop.simps) (simp add: handle_address_Suc)
  also have "\<dots> = Some (Inr ((if ti_enabled ti then acc @ [ti] else acc)
        @ map (resolved_texture E s base)
            (filter (has_texture E s base) [Suc k..<handle_count sz])))"
    by (rule IH)
  also have "(if ti_enabled ti then acc @ [ti] else acc)
        @ map (resolved_texture E s base)
            (filter (has_texture E s base) [Suc k..<handle_count sz])
      = acc @ map (resolved_texture E s base)
            (filter (has_texture E s base) [k..<handle_count sz])"
    unfolding texture_at_enabled [OF lt ti] u by simp
  finally show ?case .
qed

lemma texture_loop_fail:
  assumes nw: "unat base + unat sz + 0x23 < 2 ^ 64"
  shows "k \<le> j \<Longrightarrow> j < handle_count sz \<Longrightarrow>
     isl (texture_at E s base (handle_address base j)) \<Longrightarrow>
     texture_loop E s base (base + ucast sz) (handle_address base k) acc =
       Some (Inl UnsupportedTextureFormat)"
proof (induction "j - k" arbitrary: k acc)
  case 0
  then have kj: "k = j" by simp
  with 0 have lt: "k < handle_count sz" by simp
  from handle_in_buffer [OF nw, of k] lt
  have c: "handle_address base k < base + ucast sz" by simp
  from 0 kj obtain e where e: "texture_at E s base (handle_address base k) = Inl e"
    by (cases "texture_at E s base (handle_address base k)") auto
  from texture_at_Inl [OF lt e] have "e = UnsupportedTextureFormat" by simp
  with c e show ?case by (subst texture_loop.simps) simp
next
  case (Suc d)
  then have lt: "k < handle_count sz" and le: "Suc k \<le> j" and d: "d = j - Suc k"
    by simp_all
  from handle_in_buffer [OF nw, of k] lt
  have c: "handle_address base k < base + ucast sz" by simp
  show ?case
  proof (cases "texture_at E s base (handle_address base k)")
    case (Inl e)
    from texture_at_Inl [OF lt Inl] have "e = UnsupportedTextureFormat" by simp
    with c Inl show ?thesis by (subst texture_loop.simps) simp
  next
    case (Inr ti)
    have "texture_loop E s base (base + ucast sz) (handle_address base k) acc =
      texture_loop E s base (base + ucast sz) (handle_address base (Suc k))
        (if ti_enabled ti then acc @ [ti] else acc)"
      using c Inr by (subst texture_loop.simps) (simp add: handle_address_Suc)
    also have "\<dots> = Some (Inl UnsupportedTextureFormat)"
      by (rule Suc.hyps(1) [OF d le Suc.prems(2) Suc.prems(3)])
    finally show ?thesis .
  qed
qed

lemma GetStageTextures_bound:
  assumes "unat stage < MaxShaderStage"
    and "unat (reg E s tex_cb_index) < MaxConstBuffers E"
    and "cbi_enabled (shader_stages s (unat stage) (unat (reg E s tex_cb_index)))"
    and "cbi_address (shader_stages s (unat stage) (unat (reg E s tex_cb_index))) \<noteq> 0"
  shows "GetStageTextures E s stage =
     texture_loop E s
       (cbi_address (shader_stages s (unat stage) (unat (reg E s tex_cb_index))))
       (cbi_address (shader_stages s (unat stage) (unat (reg E s tex_cb_index)))
          + ucast (cbi_size (shader_stages s (unat stage) (unat (reg E s tex_cb_index)))))
       (handle_address
          (cbi_address (shader_stages s (unat stage) (unat (reg E s tex_cb_index)))) 0) []"
  using assms by (simp add: GetStageTextures_def Let_def handle_address_0)

lemma texture_at_not_isl:
  assumes "k < handle_count sz"
  shows "\<not> isl (texture_at E s base (handle_address base k)) \<longleftrightarrow>
     (has_texture E s base k \<longrightarrow>
        supported_tic E (tic_block E s
          (BitField_Value (handle_tic_id E) (texture_handle E s base k))))"
  unfolding texture_at_handle [OF assms] GetTICEntry_eq by simp

text \<open>
  Claim C4, as amended. For a valid stage whose texture config buffer index selects a bind
  slot: when the slot is disabled or its address is zero, \<^verbatim>\<open>GetStageTextures\<close> stops
  with \<open>TextureBufferNotBound\<close>. Otherwise (the buffer lying inside the 64-bit address
  space) it scans the handles from address + \<^verbatim>\<open>0x20\<close> up to address + size. When every
  handle with a nonzero texture id has a supported descriptor, it returns, in ascending
  order, exactly the handles with a nonzero texture id, each enabled and with the index of
  its position among all scanned handles; when one has not, it stops with
  \<open>UnsupportedTextureFormat\<close>.
\<close>

theorem GetStageTextures_scan:
  assumes "unat stage < MaxShaderStage"
    and "unat (reg E s tex_cb_index) < MaxConstBuffers E"
    and "buf = shader_stages s (unat stage) (unat (reg E s tex_cb_index))"
  shows "(\<not> cbi_enabled buf \<or> cbi_address buf = 0 \<longrightarrow>
            GetStageTextures E s stage = Some (Inl TextureBufferNotBound)) \<and>
         (cbi_enabled buf \<and> cbi_address buf \<noteq> 0 \<and>
            unat (cbi_address buf) + unat (cbi_size buf) + 0x23 < 2 ^ 64 \<and>
            (\<forall>j < handle_count (cbi_size buf).
               has_texture E s (cbi_address buf) j \<longrightarrow>
               supported_tic E (tic_block E s
                 (BitField_Value (handle_tic_id E)
                    (texture_handle E s (cbi_address buf) j)))) \<longrightarrow>
            GetStageTextures E s stage =
              Some (Inr (map (resolved_texture E s (cbi_address buf))
                          (filter (has_texture E s (cbi_address buf))
                             [0..<handle_count (cbi_size buf)]))) \<and>
            (\<forall>j < handle_count (cbi_size buf).
               has_texture E s (cbi_address buf) j \<longrightarrow>
               ti_enabled (resolved_texture E s (cbi_address buf) j) \<and>
               ti_index (resolved_texture E s (cbi_address buf) j) = of_nat j)) \<and>
         (cbi_enabled buf \<and> cbi_address buf \<noteq> 0 \<and>
            unat (cbi_address buf) + unat (cbi_size buf) + 0x23 < 2 ^ 64 \<and>
            (\<exists>j < handle_count (cbi_size buf).
               has_texture E s (cbi_address buf) j \<and>
               \<not> supported_tic E (tic_block E s
                 (BitField_Value (handle_tic_id E)
                    (texture_handle E s (cbi_address buf) j)))) \<longrightarrow>
            GetStageTextures E s stage = Some (Inl UnsupportedTextureFormat))"
proof (intro conjI impI)
  assume "\<not> cbi_enabled buf \<or> cbi_address buf = 0"
  with assms show "GetStageTextures E s stage = Some (Inl TextureBufferNotBound)"
    by (auto simp: GetStageTextures_def Let_def)
next
  assume a: "cbi_enabled buf \<and> cbi_address buf \<noteq> 0 \<and>
            unat (cbi_address buf) + unat (cbi_size buf) + 0x23 < 2 ^ 64 \<and>
            (\<forall>j < handle_count (cbi_size buf).
               has_texture E s (cbi_address buf) j \<longrightarrow>
               supported_tic E (tic_block E s
                 (BitField_Value (handle_tic_id E)
                    (texture_handle E s (cbi_address buf) j))))"
  then have nw: "unat (cbi_address buf) + unat (cbi_size buf) + 0x23 < 2 ^ 64" by simp
  from a have en: "cbi_enabled buf" and nz: "cbi_address buf \<noteq> 0" by simp_all
  from a have ok: "\<forall>j. 0 \<le> j \<and> j < handle_count (cbi_size buf) \<longrightarrow>
      \<not> isl (texture_at E s (cbi_address buf) (handle_address (cbi_address buf) j))"
    by (simp add: texture_at_not_isl)
  have "GetStageTextures E s stage =
      texture_loop E s (cbi_address buf) (cbi_address buf + ucast (cbi_size buf))
        (handle_address (cbi_address buf) 0) []"
    using GetStageTextures_bound [OF assms(1,2)] en nz unfolding assms(3) by simp
  also have "\<dots> = Some (Inr ([] @ map (resolved_texture E s (cbi_address buf))
                          (filter (has_texture E s (cbi_address buf))
                             [0..<handle_count (cbi_size buf)])))"
    by (rule texture_loop_scan [OF nw _ ok]) simp
  finally show "GetStageTextures E s stage =
              Some (Inr (map (resolved_texture E s (cbi_address buf))
                          (filter (has_texture E s (cbi_address buf))
                             [0..<handle_count (cbi_size buf)])))"
    by simp
  show "\<forall>j < handle_count (cbi_size buf).
               has_texture E s (cbi_address buf) j \<longrightarrow>
               ti_enabled (resolved_texture E s (cbi_address buf) j) \<and>
               ti_index (resolved_texture E s (cbi_address buf) j) = of_nat j"
    by (simp add: resolved_texture_def Let_def)
next
  assume a: "cbi_enabled buf \<and> cbi_address buf \<noteq> 0 \<and>
            unat (cbi_address buf) + unat (cbi_size buf) + 0x23 < 2 ^ 64 \<and>
            (\<exists>j < handle_count (cbi_size buf).
               has_texture E s (cbi_address buf) j \<and>
               \<not> supported_tic E (tic_block E s
                 (BitField_Value (handle_tic_id E)
                    (texture_handle E s (cbi_address buf) j))))"
  then have nw: "unat (cbi_address buf) + unat (cbi_size buf) + 0x23 < 2 ^ 64" by simp
  from a have en: "cbi_enabled buf" and nz: "cbi_address buf \<noteq> 0" by simp_all
  from a obtain j where j: "j < handle_count (cbi_size buf)"
    and bad: "isl (texture_at E s (cbi_address buf) (handle_address (cbi_address buf) j))"
    using texture_at_not_isl [of _ "cbi_size buf" E s "cbi_address buf"] by blast
  have "GetStageTextures E s stage =
      texture_loop E s (cbi_address buf) (cbi_address buf + ucast (cbi_size buf))
        (handle_address (cbi_address buf) 0) []"
    using GetStageTextures_bound [OF assms(1,2)] en nz unfolding assms(3) by simp
  also have "\<dots> = Some (Inl UnsupportedTextureFormat)"
    by (rule texture_loop_fail [OF nw _ j bad]) simp
  finally show "GetStageTextures E s stage = Some (Inl UnsupportedTextureFormat)" .
qed

lemma ReadBlock_nth: "i < n \<Longrightarrow> ReadBlock m a n ! i = m (a + of_nat i)"
  by (simp add: ReadBlock_def)

lemma word_at_ReadBlock:
  assumes "i + 3 < n"
  shows "word_at (ReadBlock m a n) i = Read32 m (a + of_nat i)"
proof -
  from assms have "i < n" "i + 1 < n" "i + 2 < n" "i + 3 < n" by simp_all
  then show ?thesis
    by (simp add: word_at_def Read32_def ReadBlock_nth ac_simps)
qed

lemma handle_count_0x28: "handle_count 0x28 = 2"
  by (simp add: handle_count_def)

lemma all_less_2: "(\<forall>j<2. P j) \<longleftrightarrow> P 0 \<and> P (Suc 0)"
  by (auto simp: less_Suc_eq numeral_2_eq_2)

lemma ex_less_2: "(\<exists>j<2. P j) \<longleftrightarrow> P 0 \<or> P (Suc 0)"
  by (auto simp: less_Suc_eq numeral_2_eq_2)

lemma texture_engine_slot:
  "reg maxwell_env texture_engine tex_cb_index = 2"
  "reg maxwell_env bad_texture_engine tex_cb_index = 2"
  "shader_stages texture_engine 4 2
     = \<lparr>cbi_address = 0x9000, cbi_index = 2, cbi_size = 0x28, cbi_enabled = True\<rparr>"
  "shader_stages bad_texture_engine 4 2
     = \<lparr>cbi_address = 0x9000, cbi_index = 2, cbi_size = 0x28, cbi_enabled = True\<rparr>"
  "shader_stages idle_engine 4 0
     = \<lparr>cbi_address = 0, cbi_index = 0, cbi_size = 0, cbi_enabled = False\<rparr>"
  "reg maxwell_env idle_engine tex_cb_index = 0"
  by (simp_all add: reg_def maxwell_env_def texture_engine_def bad_texture_engine_def
        idle_engine_def)

lemma texture_engine_handles:
  "texture_handle maxwell_env texture_engine 0x9000 0 = 1"
  "texture_handle maxwell_env texture_engine 0x9000 (Suc 0) = 0"
  "texture_handle maxwell_env bad_texture_engine 0x9000 0 = 1"
  "texture_handle maxwell_env bad_texture_engine 0x9000 (Suc 0) = 0"
  by (simp_all add: texture_handle_def handle_address_def Read32_def maxwell_env_def
        texture_engine_def bad_texture_engine_def idle_engine_def)

lemma texture_engine_has:
  "has_texture maxwell_env texture_engine 0x9000 0"
  "\<not> has_texture maxwell_env texture_engine 0x9000 (Suc 0)"
  "has_texture maxwell_env bad_texture_engine 0x9000 0"
  "\<not> has_texture maxwell_env bad_texture_engine 0x9000 (Suc 0)"
  "BitField_Value (handle_tic_id maxwell_env) 1 = 1"
  by (simp_all add: has_texture_def texture_engine_handles)
     (simp_all add: maxwell_env_def BitField_Value_def)

lemma maxwell_tic_fields:
  "tic_header_version maxwell_env (tic_block maxwell_env s i)
     = BitField_Value (21, 3) (Read32 (guest_memory s)
         (TICAddress maxwell_env s + ucast i * 0x20 + 0x1000 + 8))"
  "tic_texture_type maxwell_env (tic_block maxwell_env s i)
     = BitField_Value (23, 4) (Read32 (guest_memory s)
         (TICAddress maxwell_env s + ucast i * 0x20 + 0x1000 + 16))"
  "tic_r_type maxwell_env (tic_block maxwell_env s i)
     = BitField_Value (7, 3) (Read32 (guest_memory s)
         (TICAddress maxwell_env s + ucast i * 0x20 + 0x1000))"
  "tic_g_type maxwell_env (tic_block maxwell_env s i)
     = BitField_Value (10, 3) (Read32 (guest_memory s)
         (TICAddress maxwell_env s + ucast i * 0x20 + 0x1000))"
  "tic_b_type maxwell_env (tic_block maxwell_env s i)
     = BitField_Value (13, 3) (Read32 (guest_memory s)
         (TICAddress maxwell_env s + ucast i * 0x20 + 0x1000))"
  "tic_a_type maxwell_env (tic_block maxwell_env s i)
     = BitField_Value (16, 3) (Read32 (guest_memory s)
         (TICAddress maxwell_env s + ucast i * 0x20 + 0x1000))"
  "TICHeaderVersion_BlockLinear maxwell_env = 3"
  "TextureType_Texture2D maxwell_env = 1"
  by (simp_all add: tic_block_def maxwell_env_def word_at_ReadBlock)

lemma texture_engine_tic:
  "supported_tic maxwell_env (tic_block maxwell_env texture_engine 1)"
  "\<not> supported_tic maxwell_env (tic_block maxwell_env bad_texture_engine 1)"
  by (simp_all add: supported_tic_def maxwell_tic_fields)
     (simp_all add: TICAddress_def reg_def join_address_def Read32_def BitField_Value_def
        maxwell_env_def texture_engine_def bad_texture_engine_def idle_engine_def)

lemma upt_0_2: "[0..<2] = [0, Suc 0]"
  by (simp add: upt_rec numeral_2_eq_2)

theorem GetStageTextures_scan_witness:
  "GetStageTextures maxwell_env idle_engine 4 = Some (Inl TextureBufferNotBound) \<and>
   GetStageTextures maxwell_env texture_engine 4
     = Some (Inr [resolved_texture maxwell_env texture_engine 0x9000 0]) \<and>
   ti_enabled (resolved_texture maxwell_env texture_engine 0x9000 0) \<and>
   ti_index (resolved_texture maxwell_env texture_engine 0x9000 0) = 0 \<and>
   GetStageTextures maxwell_env bad_texture_engine 4 = Some (Inl UnsupportedTextureFormat)"
proof -
  have st: "unat (4::u32) < MaxShaderStage" by (simp add: MaxShaderStage_def)
  have ix: "unat (reg maxwell_env idle_engine tex_cb_index) < MaxConstBuffers maxwell_env"
    "unat (reg maxwell_env texture_engine tex_cb_index) < MaxConstBuffers maxwell_env"
    "unat (reg maxwell_env bad_texture_engine tex_cb_index) < MaxConstBuffers maxwell_env"
    by (simp_all add: texture_engine_slot) (simp_all add: maxwell_env_def)
  let ?none = "\<lparr>cbi_address = 0, cbi_index = 0, cbi_size = 0, cbi_enabled = False\<rparr>"
  let ?buf = "\<lparr>cbi_address = 0x9000, cbi_index = 2, cbi_size = 0x28, cbi_enabled = True\<rparr>"
  have b0: "?none = shader_stages idle_engine (unat (4::u32))
      (unat (reg maxwell_env idle_engine tex_cb_index))"
    by (simp add: texture_engine_slot)
  have b1: "?buf = shader_stages texture_engine (unat (4::u32))
      (unat (reg maxwell_env texture_engine tex_cb_index))"
    by (simp add: texture_engine_slot)
  have b2: "?buf = shader_stages bad_texture_engine (unat (4::u32))
      (unat (reg maxwell_env bad_texture_engine tex_cb_index))"
    by (simp add: texture_engine_slot)
  have a: "GetStageTextures maxwell_env idle_engine 4 = Some (Inl TextureBufferNotBound)"
    using GetStageTextures_scan [OF st ix(1) b0, THEN conjunct1] by simp
  have b: "GetStageTextures maxwell_env texture_engine 4
      = Some (Inr [resolved_texture maxwell_env texture_engine 0x9000 0]) \<and>
    ti_enabled (resolved_texture maxwell_env texture_engine 0x9000 0) \<and>
    ti_index (resolved_texture maxwell_env texture_engine 0x9000 0) = 0"
    using GetStageTextures_scan [OF st ix(2) b1, THEN conjunct2, THEN conjunct1]
    by (simp add: handle_count_0x28 all_less_2 texture_engine_has texture_engine_handles
          texture_engine_tic upt_0_2)
  have c: "GetStageTextures maxwell_env bad_texture_engine 4
      = Some (Inl UnsupportedTextureFormat)"
    using GetStageTextures_scan [OF st ix(3) b2, THEN conjunct2, THEN conjunct2]
    by (simp add: handle_count_0x28 ex_less_2 texture_engine_has texture_engine_handles
          texture_engine_tic)
  from a b c show ?thesis by simp
qed

text \<open>
  Claim C4 as stated fails where a scanned handle has a nonzero texture id and an
  unsupported descriptor: the buffer is bound, yet the call does not return the handle, it
  stops at the assertion of \<^verbatim>\<open>GetTICEntry\<close>.
\<close>

theorem GetStageTextures_scan_counterexample:
  "unat (4::u32) < MaxShaderStage \<and>
   reg maxwell_env bad_texture_engine tex_cb_index = 2 \<and>
   cbi_enabled (shader_stages bad_texture_engine 4 2) \<and>
   cbi_address (shader_stages bad_texture_engine 4 2) = 0x9000 \<and>
   has_texture maxwell_env bad_texture_engine 0x9000 0 \<and>
   GetStageTextures maxwell_env bad_texture_engine 4 = Some (Inl UnsupportedTextureFormat)"
proof -
  have st: "unat (4::u32) < MaxShaderStage" by (simp add: MaxShaderStage_def)
  have nw: "unat (0x9000::u64) + unat (0x28::u32) + 0x23 < 2 ^ 64" by simp
  have j: "0 < handle_count 0x28" by (simp add: handle_count_0x28)
  have bad: "isl (texture_at maxwell_env bad_texture_engine 0x9000 (handle_address 0x9000 0))"
    using texture_at_not_isl [OF j, of maxwell_env bad_texture_engine "0x9000"]
    by (simp add: texture_engine_has texture_engine_handles texture_engine_tic)
  have "GetStageTextures maxwell_env bad_texture_engine 4 =
      texture_loop maxwell_env bad_texture_engine 0x9000 (0x9000 + ucast (0x28::u32))
        (handle_address 0x9000 0) []"
    using GetStageTextures_bound [of 4 maxwell_env bad_texture_engine]
    by (simp add: texture_engine_slot MaxShaderStage_def) (simp add: maxwell_env_def)
  also have "\<dots> = Some (Inl UnsupportedTextureFormat)"
    by (rule texture_loop_fail [OF nw _ j bad]) simp
  finally show ?thesis
    using st by (simp add: texture_engine_slot texture_engine_has)
qed

text \<open>
  Claim C8. \<^verbatim>\<open>GetTICEntry\<close> returns a descriptor only when it has the block-linear
  header version, the 2D texture type and the same data type in all four components, and
  then returns the bytes read unchanged; a descriptor that misses any of the three stops
  the call with \<open>UnsupportedTextureFormat\<close>. In \<^verbatim>\<open>GetStageTextures\<close> on a bound buffer,
  one scanned handle with a nonzero texture id and such a descriptor stops the whole
  resolution with that failure, and every entry of a returned sequence carries a
  descriptor that meets the three conditions.
\<close>

theorem GetTICEntry_supported_only:
  "(GetTICEntry E s i = Inr tic \<longrightarrow>
      tic = tic_block E s i \<and>
      tic_header_version E tic = TICHeaderVersion_BlockLinear E \<and>
      tic_texture_type E tic = TextureType_Texture2D E \<and>
      tic_r_type E tic = tic_g_type E tic \<and> tic_g_type E tic = tic_b_type E tic \<and>
      tic_b_type E tic = tic_a_type E tic) \<and>
   (tic_header_version E (tic_block E s i) \<noteq> TICHeaderVersion_BlockLinear E \<or>
    tic_texture_type E (tic_block E s i) \<noteq> TextureType_Texture2D E \<or>
    \<not> (tic_r_type E (tic_block E s i) = tic_g_type E (tic_block E s i) \<and>
       tic_g_type E (tic_block E s i) = tic_b_type E (tic_block E s i) \<and>
       tic_b_type E (tic_block E s i) = tic_a_type E (tic_block E s i)) \<longrightarrow>
      GetTICEntry E s i = Inl UnsupportedTextureFormat) \<and>
   (unat stage < MaxShaderStage \<and> unat (reg E s tex_cb_index) < MaxConstBuffers E \<and>
    buf = shader_stages s (unat stage) (unat (reg E s tex_cb_index)) \<and>
    cbi_enabled buf \<and> cbi_address buf \<noteq> 0 \<and>
    unat (cbi_address buf) + unat (cbi_size buf) + 0x23 < 2 ^ 64 \<longrightarrow>
      (j < handle_count (cbi_size buf) \<and> has_texture E s (cbi_address buf) j \<and>
       \<not> supported_tic E (tic_block E s
            (BitField_Value (handle_tic_id E) (texture_handle E s (cbi_address buf) j))) \<longrightarrow>
         GetStageTextures E s stage = Some (Inl UnsupportedTextureFormat)) \<and>
      (GetStageTextures E s stage = Some (Inr ts) \<longrightarrow>
         (\<forall>t \<in> set ts. ti_enabled t \<and> supported_tic E (ti_tic t))))"
proof (intro conjI impI)
  assume "GetTICEntry E s i = Inr tic"
  then have "supported_tic E (tic_block E s i) \<and> tic = tic_block E s i"
    by (auto simp: GetTICEntry_eq split: if_splits)
  then show "tic = tic_block E s i"
    and "tic_header_version E tic = TICHeaderVersion_BlockLinear E"
    and "tic_texture_type E tic = TextureType_Texture2D E"
    and "tic_r_type E tic = tic_g_type E tic" and "tic_g_type E tic = tic_b_type E tic"
    and "tic_b_type E tic = tic_a_type E tic"
    by (auto simp: supported_tic_def)
next
  assume "tic_header_version E (tic_block E s i) \<noteq> TICHeaderVersion_BlockLinear E \<or>
    tic_texture_type E (tic_block E s i) \<noteq> TextureType_Texture2D E \<or>
    \<not> (tic_r_type E (tic_block E s i) = tic_g_type E (tic_block E s i) \<and>
       tic_g_type E (tic_block E s i) = tic_b_type E (tic_block E s i) \<and>
       tic_b_type E (tic_block E s i) = tic_a_type E (tic_block E s i))"
  then have "\<not> supported_tic E (tic_block E s i)"
    by (auto simp: supported_tic_def)
  then show "GetTICEntry E s i = Inl UnsupportedTextureFormat"
    by (simp add: GetTICEntry_eq)
next
  assume a: "unat stage < MaxShaderStage \<and> unat (reg E s tex_cb_index) < MaxConstBuffers E \<and>
    buf = shader_stages s (unat stage) (unat (reg E s tex_cb_index)) \<and>
    cbi_enabled buf \<and> cbi_address buf \<noteq> 0 \<and>
    unat (cbi_address buf) + unat (cbi_size buf) + 0x23 < 2 ^ 64"
  assume b: "j < handle_count (cbi_size buf) \<and> has_texture E s (cbi_address buf) j \<and>
       \<not> supported_tic E (tic_block E s
            (BitField_Value (handle_tic_id E) (texture_handle E s (cbi_address buf) j)))"
  from a have nw: "unat (cbi_address buf) + unat (cbi_size buf) + 0x23 < 2 ^ 64" by blast
  from b have j: "j < handle_count (cbi_size buf)" by simp
  from b have bad: "isl (texture_at E s (cbi_address buf) (handle_address (cbi_address buf) j))"
    using texture_at_not_isl [OF j, of E s "cbi_address buf"] by blast
  have "GetStageTextures E s stage =
      texture_loop E s (cbi_address buf) (cbi_address buf + ucast (cbi_size buf))
        (handle_address (cbi_address buf) 0) []"
    using GetStageTextures_bound [of stage E s] a by blast
  also have "\<dots> = Some (Inl UnsupportedTextureFormat)"
    by (rule texture_loop_fail [OF nw _ j bad]) simp
  finally show "GetStageTextures E s stage = Some (Inl UnsupportedTextureFormat)" .
next
  assume a: "unat stage < MaxShaderStage \<and> unat (reg E s tex_cb_index) < MaxConstBuffers E \<and>
    buf = shader_stages s (unat stage) (unat (reg E s tex_cb_index)) \<and>
    cbi_enabled buf \<and> cbi_address buf \<noteq> 0 \<and>
    unat (cbi_address buf) + unat (cbi_size buf) + 0x23 < 2 ^ 64"
  assume r: "GetStageTextures E s stage = Some (Inr ts)"
  from a have nw: "unat (cbi_address buf) + unat (cbi_size buf) + 0x23 < 2 ^ 64" by blast
  have g: "GetStageTextures E s stage =
      texture_loop E s (cbi_address buf) (cbi_address buf + ucast (cbi_size buf))
        (handle_address (cbi_address buf) 0) []"
    using GetStageTextures_bound [of stage E s] a by blast
  have ok: "\<forall>j. 0 \<le> j \<and> j < handle_count (cbi_size buf) \<longrightarrow>
      \<not> isl (texture_at E s (cbi_address buf) (handle_address (cbi_address buf) j))"
  proof (intro allI impI)
    fix j assume j: "0 \<le> j \<and> j < handle_count (cbi_size buf)"
    show "\<not> isl (texture_at E s (cbi_address buf) (handle_address (cbi_address buf) j))"
    proof
      assume bad: "isl (texture_at E s (cbi_address buf) (handle_address (cbi_address buf) j))"
      from j have lt: "j < handle_count (cbi_size buf)" by simp
      have "texture_loop E s (cbi_address buf) (cbi_address buf + ucast (cbi_size buf))
          (handle_address (cbi_address buf) 0) [] = Some (Inl UnsupportedTextureFormat)"
        by (rule texture_loop_fail [OF nw _ lt bad]) simp
      with g r show False by simp
    qed
  qed
  have "texture_loop E s (cbi_address buf) (cbi_address buf + ucast (cbi_size buf))
          (handle_address (cbi_address buf) 0) []
      = Some (Inr ([] @ map (resolved_texture E s (cbi_address buf))
                          (filter (has_texture E s (cbi_address buf))
                             [0..<handle_count (cbi_size buf)])))"
    by (rule texture_loop_scan [OF nw _ ok]) simp
  with g r have ts: "ts = map (resolved_texture E s (cbi_address buf))
      (filter (has_texture E s (cbi_address buf)) [0..<handle_count (cbi_size buf)])"
    by simp
  show "\<forall>t \<in> set ts. ti_enabled t \<and> supported_tic E (ti_tic t)"
  proof
    fix t assume "t \<in> set ts"
    with ts obtain j where j: "j < handle_count (cbi_size buf)"
      and h: "has_texture E s (cbi_address buf) j"
      and t: "t = resolved_texture E s (cbi_address buf) j"
      by auto
    from ok j h have sup: "supported_tic E (tic_block E s
        (BitField_Value (handle_tic_id E) (texture_handle E s (cbi_address buf) j)))"
      using texture_at_not_isl [OF j, of E s "cbi_address buf"] by simp
    show "ti_enabled t \<and> supported_tic E (ti_tic t)"
      unfolding t using sup
      by (simp add: resolved_texture_def Let_def GetTICEntry_eq)
  qed
qed

lemma texture_engine_result:
  "GetStageTextures maxwell_env texture_engine 4
     = Some (Inr [resolved_texture maxwell_env texture_engine 0x9000 0])"
proof -
  have nw: "unat (0x9000::u64) + unat (0x28::u32) + 0x23 < 2 ^ 64" by simp
  have lt: "0 < handle_count 0x28" "Suc 0 < handle_count 0x28"
    by (simp_all add: handle_count_0x28)
  have ok: "\<forall>j. 0 \<le> j \<and> j < handle_count 0x28 \<longrightarrow>
      \<not> isl (texture_at maxwell_env texture_engine 0x9000 (handle_address 0x9000 j))"
    using texture_at_not_isl [OF lt(1), of maxwell_env texture_engine "0x9000"]
      texture_at_not_isl [OF lt(2), of maxwell_env texture_engine "0x9000"]
    by (simp add: handle_count_0x28 all_less_2 texture_engine_has texture_engine_handles
          texture_engine_tic)
  have "GetStageTextures maxwell_env texture_engine 4 =
      texture_loop maxwell_env texture_engine 0x9000 (0x9000 + ucast (0x28::u32))
        (handle_address 0x9000 0) []"
    using GetStageTextures_bound [of 4 maxwell_env texture_engine]
    by (simp add: texture_engine_slot MaxShaderStage_def) (simp add: maxwell_env_def)
  also have "\<dots> = Some (Inr ([] @ map (resolved_texture maxwell_env texture_engine 0x9000)
      (filter (has_texture maxwell_env texture_engine 0x9000) [0..<handle_count 0x28])))"
    by (rule texture_loop_scan [OF nw _ ok]) simp
  finally show ?thesis
    by (simp add: handle_count_0x28 upt_0_2 texture_engine_has)
qed

theorem GetTICEntry_supported_only_witness:
  "GetTICEntry maxwell_env texture_engine 1 = Inr (tic_block maxwell_env texture_engine 1) \<and>
   tic_header_version maxwell_env (tic_block maxwell_env texture_engine 1) = 3 \<and>
   tic_texture_type maxwell_env (tic_block maxwell_env texture_engine 1) = 1 \<and>
   GetTICEntry maxwell_env bad_texture_engine 1 = Inl UnsupportedTextureFormat \<and>
   GetStageTextures maxwell_env bad_texture_engine 4 = Some (Inl UnsupportedTextureFormat) \<and>
   supported_tic maxwell_env (ti_tic (resolved_texture maxwell_env texture_engine 0x9000 0))"
proof -
  note T = GetTICEntry_supported_only
  let ?buf = "\<lparr>cbi_address = 0x9000, cbi_index = 2, cbi_size = 0x28, cbi_enabled = True\<rparr>"
  have g: "GetTICEntry maxwell_env texture_engine 1
      = Inr (tic_block maxwell_env texture_engine 1)"
    by (simp add: GetTICEntry_eq texture_engine_tic)
  have a: "tic_header_version maxwell_env (tic_block maxwell_env texture_engine 1) = 3 \<and>
      tic_texture_type maxwell_env (tic_block maxwell_env texture_engine 1) = 1"
    using T [where E = maxwell_env and s = texture_engine and i = 1
        and tic = "tic_block maxwell_env texture_engine 1", THEN conjunct1] g
    by (simp add: maxwell_tic_fields(7,8))
  have nb: "tic_header_version maxwell_env (tic_block maxwell_env bad_texture_engine 1)
      \<noteq> TICHeaderVersion_BlockLinear maxwell_env"
    by (simp add: maxwell_tic_fields)
       (simp add: TICAddress_def reg_def join_address_def Read32_def BitField_Value_def
          maxwell_env_def bad_texture_engine_def texture_engine_def idle_engine_def)
  have b: "GetTICEntry maxwell_env bad_texture_engine 1 = Inl UnsupportedTextureFormat"
    using T [where E = maxwell_env and s = bad_texture_engine and i = 1,
        THEN conjunct2, THEN conjunct1] nb
    by simp
  have h1: "unat (4::u32) < MaxShaderStage \<and>
      unat (reg maxwell_env bad_texture_engine tex_cb_index) < MaxConstBuffers maxwell_env \<and>
      ?buf = shader_stages bad_texture_engine (unat (4::u32))
        (unat (reg maxwell_env bad_texture_engine tex_cb_index)) \<and>
      cbi_enabled ?buf \<and> cbi_address ?buf \<noteq> 0 \<and>
      unat (cbi_address ?buf) + unat (cbi_size ?buf) + 0x23 < 2 ^ 64"
    by (simp add: texture_engine_slot MaxShaderStage_def) (simp add: maxwell_env_def)
  have h2: "0 < handle_count (cbi_size ?buf) \<and>
      has_texture maxwell_env bad_texture_engine (cbi_address ?buf) 0 \<and>
      \<not> supported_tic maxwell_env (tic_block maxwell_env bad_texture_engine
          (BitField_Value (handle_tic_id maxwell_env)
             (texture_handle maxwell_env bad_texture_engine (cbi_address ?buf) 0)))"
    by (simp add: handle_count_0x28 texture_engine_has texture_engine_handles
          texture_engine_tic)
  have c: "GetStageTextures maxwell_env bad_texture_engine 4
      = Some (Inl UnsupportedTextureFormat)"
    by (rule T [where E = maxwell_env and s = bad_texture_engine and stage = 4
          and buf = ?buf and j = 0, THEN conjunct2, THEN conjunct2, THEN mp, OF h1,
          THEN conjunct1, THEN mp, OF h2])
  have h3: "unat (4::u32) < MaxShaderStage \<and>
      unat (reg maxwell_env texture_engine tex_cb_index) < MaxConstBuffers maxwell_env \<and>
      ?buf = shader_stages texture_engine (unat (4::u32))
        (unat (reg maxwell_env texture_engine tex_cb_index)) \<and>
      cbi_enabled ?buf \<and> cbi_address ?buf \<noteq> 0 \<and>
      unat (cbi_address ?buf) + unat (cbi_size ?buf) + 0x23 < 2 ^ 64"
    by (simp add: texture_engine_slot MaxShaderStage_def) (simp add: maxwell_env_def)
  have d: "supported_tic maxwell_env
      (ti_tic (resolved_texture maxwell_env texture_engine 0x9000 0))"
    using T [where E = maxwell_env and s = texture_engine and stage = 4 and buf = ?buf
        and ts = "[resolved_texture maxwell_env texture_engine 0x9000 0]",
        THEN conjunct2, THEN conjunct2, THEN mp, OF h3,
        THEN conjunct2, THEN mp, OF texture_engine_result]
    by simp
  from g a b c d show ?thesis by simp
qed

section \<open>Split macro calls\<close>

lemma split_macro_call_writes_three:
  "split_macro_call_writes E s e 0 v0 [v1, v2] =
     (case WriteReg E s e v0 2 of
        Fail er t \<Rightarrow> Fail er t
      | Ok s1 \<Rightarrow>
          (case WriteReg E s1 (e + 1) v1 1 of
             Fail er t \<Rightarrow> Fail er t
           | Ok s2 \<Rightarrow> WriteReg E s2 (e + 1) v2 0))"
  by (simp add: split_macro_call_writes_def split: outcome.splits)

lemma method_handlers_arity:
  "method_handlers e = Some mi \<Longrightarrow> arguments mi = 1 \<or> arguments mi = 5"
  by (auto simp: method_handlers_def split: if_splits)

lemma method_handlers_no_arity_three:
  "method_handlers e = Some mi \<Longrightarrow> arguments mi \<noteq> 3"
  by (drule method_handlers_arity) auto

lemma remaining_zero:
  assumes "n < 2 ^ 32"
  shows "(of_nat n :: u32) = 0 \<longleftrightarrow> n = 0"
proof
  assume z: "(of_nat n :: u32) = 0"
  from assms have "n < 2 ^ LENGTH(32)" by simp
  then have "unat (of_nat n :: u32) = n" by (intro of_nat_inverse [OF refl])
  with z show "n = 0" by simp
next
  assume "n = 0" then show "(of_nat n :: u32) = 0" by simp
qed

lemma WriteReg_argument:
  assumes rng: "MacroRegistersStart \<le> e" "e mod 2 = 0" "unat (e + 1) < NUM_REGS E"
  shows "WriteReg E (s\<lparr>executing_macro := e, macro_params := ps\<rparr>) (e + 1) v r =
     (if r = 0
      then CallMacroMethod E (s\<lparr>executing_macro := e, macro_params := ps @ [v]\<rparr>) e (ps @ [v])
      else Ok (s\<lparr>executing_macro := e, macro_params := ps @ [v]\<rparr>))"
proof -
  have e0: "e \<noteq> 0" using rng(1) by (rule MacroRegistersStart_nonzero)
  have e1: "MacroRegistersStart \<le> e + 1" using rng(2) rng(1) by (rule even_word_succ_le)
  from e0 rng(3) show ?thesis
    by (simp add: WriteReg_def CallMacroMethod_def WriteReg_tbl_macro [OF e1] pending_after_def)
qed

lemma WriteReg_entry:
  assumes idle: "executing_macro s = 0" "macro_params s = []"
    and rng: "MacroRegistersStart \<le> e" "e mod 2 = 0" "unat (e + 1) < NUM_REGS E"
  shows "WriteReg E s e v r =
     (if r = 0
      then CallMacroMethod E (s\<lparr>executing_macro := e, macro_params := [v]\<rparr>) e [v]
      else Ok (s\<lparr>executing_macro := e, macro_params := [v]\<rparr>))"
proof -
  have ne: "unat e < NUM_REGS E" using even_word_succ_less [OF rng(2)] rng(3) by simp
  from idle rng(2) ne show ?thesis
    by (simp add: WriteReg_def CallMacroMethod_def WriteReg_tbl_macro [OF rng(1)]
          pending_after_def)
qed

lemma write_arguments_run:
  assumes rng: "MacroRegistersStart \<le> e" "e mod 2 = 0" "unat (e + 1) < NUM_REGS E"
  shows "length vs + rest < 2 ^ 32 \<Longrightarrow>
     write_arguments E (s\<lparr>executing_macro := e, macro_params := ps\<rparr>) e rest vs =
       (if rest = 0 \<and> vs \<noteq> []
        then CallMacroMethod E (s\<lparr>executing_macro := e, macro_params := ps @ vs\<rparr>) e (ps @ vs)
        else Ok (s\<lparr>executing_macro := e, macro_params := ps @ vs\<rparr>))"
proof (induction vs arbitrary: ps)
  case Nil
  then show ?case by simp
next
  case (Cons v vs)
  from Cons.prems have small: "length vs + rest < 2 ^ 32" by simp
  note z = remaining_zero [OF small]
  note W = WriteReg_argument [OF rng, where s = s and ps = ps and v = v
      and r = "of_nat (length vs + rest)"]
  show ?case
  proof (cases "length vs + rest = 0")
    case True
    then have e: "vs = []" "rest = 0" by simp_all
    from W show ?thesis unfolding e by (simp split: outcome.splits)
  next
    case False
    with z have nz: "(of_nat (length vs + rest) :: u32) \<noteq> 0" by blast
    have w: "WriteReg E (s\<lparr>executing_macro := e, macro_params := ps\<rparr>) (e + 1) v
        (of_nat (length vs + rest)) = Ok (s\<lparr>executing_macro := e, macro_params := ps @ [v]\<rparr>)"
      by (simp only: W nz if_False)
    have "write_arguments E (s\<lparr>executing_macro := e, macro_params := ps\<rparr>) e rest (v # vs)
        = write_arguments E (s\<lparr>executing_macro := e, macro_params := ps @ [v]\<rparr>) e rest vs"
      by (simp only: write_arguments.simps w outcome.case)
    also have "\<dots> =
       (if rest = 0 \<and> vs \<noteq> []
        then CallMacroMethod E (s\<lparr>executing_macro := e, macro_params := (ps @ [v]) @ vs\<rparr>) e
               ((ps @ [v]) @ vs)
        else Ok (s\<lparr>executing_macro := e, macro_params := (ps @ [v]) @ vs\<rparr>))"
      by (rule Cons.IH [OF small])
    finally show ?thesis using False by auto
  qed
qed

lemma split_macro_call_writes_run:
  assumes idle: "executing_macro s = 0" "macro_params s = []"
    and rng: "MacroRegistersStart \<le> e" "e mod 2 = 0" "unat (e + 1) < NUM_REGS E"
    and small: "length vs + rest < 2 ^ 32"
  shows "split_macro_call_writes E s e rest v0 vs =
     (if rest = 0
      then CallMacroMethod E (s\<lparr>executing_macro := e, macro_params := v0 # vs\<rparr>) e (v0 # vs)
      else Ok (s\<lparr>executing_macro := e, macro_params := v0 # vs\<rparr>))"
proof -
  note z = remaining_zero [OF small]
  note W = WriteReg_entry [OF idle rng, where v = v0 and r = "of_nat (length vs + rest)"]
  note A = write_arguments_run [OF rng small, where s = s and ps = "[v0]"]
  show ?thesis
  proof (cases "length vs + rest = 0")
    case True
    then have e: "vs = []" "rest = 0" by simp_all
    from W show ?thesis unfolding e
      by (simp add: split_macro_call_writes_def split: outcome.splits)
  next
    case False
    with z have nz: "(of_nat (length vs + rest) :: u32) \<noteq> 0" by blast
    have w: "WriteReg E s e v0 (of_nat (length vs + rest))
        = Ok (s\<lparr>executing_macro := e, macro_params := [v0]\<rparr>)"
      by (simp only: W nz if_False)
    have "split_macro_call_writes E s e rest v0 vs
        = write_arguments E (s\<lparr>executing_macro := e, macro_params := [v0]\<rparr>) e rest vs"
      by (simp only: split_macro_call_writes_def w outcome.case)
    also have "\<dots> =
       (if rest = 0 \<and> vs \<noteq> []
        then CallMacroMethod E (s\<lparr>executing_macro := e, macro_params := [v0] @ vs\<rparr>) e
               ([v0] @ vs)
        else Ok (s\<lparr>executing_macro := e, macro_params := [v0] @ vs\<rparr>))"
      by (rule A)
    finally show ?thesis using False by auto
  qed
qed




text \<open>
  What the engine does on the three writes themselves: with the static table they end at
  the third write, at the handler lookup or at the arity check.
\<close>

lemma three_parameter_call_stops:
  assumes idle: "executing_macro s = 0" "macro_params s = []"
    and rng: "MacroRegistersStart \<le> e" "e mod 2 = 0" "unat (e + 1) < NUM_REGS E"
    and up: "uploaded_macros s e \<noteq> None"
  shows "split_macro_call_writes E s e 0 v0 [v1, v2] =
     Fail (if method_handlers e = None then UnimplementedMacro else ArityMismatch)
       (s\<lparr>executing_macro := e, macro_params := [v0, v1, v2]\<rparr>)"
proof -
  have small: "length [v1, v2] + 0 < (2::nat) ^ 32" by simp
  have r: "split_macro_call_writes E s e 0 v0 [v1, v2] =
      CallMacroMethod E (s\<lparr>executing_macro := e, macro_params := [v0, v1, v2]\<rparr>) e
        [v0, v1, v2]"
    using split_macro_call_writes_run [OF idle rng small, of v0] by simp
  show ?thesis
  proof (cases "method_handlers e")
    case None
    with up show ?thesis
      unfolding r by (simp add: CallMacroMethod_def CallMacroMethod_tbl_def)
  next
    case (Some mi)
    from method_handlers_no_arity_three [OF Some] have "arguments mi \<noteq> 3" .
    with Some up show ?thesis
      unfolding r by (simp add: CallMacroMethod_def CallMacroMethod_tbl_def)
  qed
qed

end
